theory Spec2Isabelle
  imports Complex_Main
begin

section \<open>JavaScript values\<close>

text \<open>
  A JavaScript number is NaN, an infinity or a finite double. Finite doubles are a subset
  of the reals, and \<open><\<close> and the test against zero on doubles agree with the reals, so a
  finite number is kept as its real value (minus zero is zero).
\<close>

datatype jsnum = NaN | NegInf | Fin real | PosInf

text \<open>The relational operator \<open>a < b\<close> on numbers: false as soon as one side is NaN.\<close>

fun num_lt :: "jsnum \<Rightarrow> jsnum \<Rightarrow> bool" where
  "num_lt NaN b = False"
| "num_lt a NaN = False"
| "num_lt (Fin x) (Fin y) = (x < y)"
| "num_lt NegInf NegInf = False"
| "num_lt NegInf b = True"
| "num_lt a PosInf = (a \<noteq> PosInf)"
| "num_lt a b = False"

text \<open>\<open>ToBoolean\<close> of a number: \<open>0\<close> and \<open>NaN\<close> are falsy.\<close>

fun num_truthy :: "jsnum \<Rightarrow> bool" where
  "num_truthy NaN = False"
| "num_truthy (Fin x) = (x \<noteq> 0)"
| "num_truthy n = True"

text \<open>
  The values that travel through the pages: what a JSON body decodes to, plus \<open>undefined\<close>.
  A string is a list of code units (one \<open>char\<close> each); an object is its list of
  properties.
\<close>

datatype jsval =
    JUndefined
  | JNull
  | JBool bool
  | JNum jsnum
  | JStr string
  | JArr "jsval list"
  | JObj "(string \<times> jsval) list"

text \<open>\<open>ToBoolean\<close>: what \<open>if (v)\<close>, \<open>!v\<close>, \<open>a && b\<close> and \<open>a || b\<close> test.\<close>

fun truthy :: "jsval \<Rightarrow> bool" where
  "truthy JUndefined = False"
| "truthy JNull = False"
| "truthy (JBool b) = b"
| "truthy (JNum n) = num_truthy n"
| "truthy (JStr s) = (s \<noteq> [])"
| "truthy (JArr xs) = True"
| "truthy (JObj fs) = True"

text \<open>\<open>a || b\<close>: the left operand when it is truthy, else the right one.\<close>

definition js_or :: "jsval \<Rightarrow> jsval \<Rightarrow> jsval" where
  "js_or a b = (if truthy a then a else b)"

text \<open>
  \<open>v?.k\<close> for the property names the pages read (\<open>data\<close>, \<open>message\<close>, \<open>id\<close>, \<open>product\<close>,
  \<open>name\<close>, \<open>createdAt\<close>, \<open>blockchainHash\<close>): \<open>undefined\<close> on \<open>undefined\<close> and \<open>null\<close>, the
  property of an object when it has one, and \<open>undefined\<close> otherwise (no primitive and no
  array has a property of these names).
\<close>

fun opt_get :: "jsval \<Rightarrow> string \<Rightarrow> jsval" where
  "opt_get (JObj fs) k = (case map_of fs k of None \<Rightarrow> JUndefined | Some v \<Rightarrow> v)"
| "opt_get v k = JUndefined"

text \<open>
  An error object as the handlers read it: \<open>err.response\<close> (set by the HTTP client when the
  server answered with an error status, \<open>undefined\<close> otherwise) and \<open>err.message\<close>.
\<close>

record jserror =
  response :: jsval
  message :: jsval

text \<open>Calling a property that is \<open>undefined\<close> throws a TypeError.\<close>

definition not_a_function :: "string \<Rightarrow> string \<Rightarrow> jserror" where
  "not_a_function obj m =
     \<lparr>response = JUndefined, message = JStr (obj @ ''.'' @ m @ '' is not a function'')\<rparr>"

text \<open>
  \<open>v.k\<close> without optional chaining: reading a property of \<open>undefined\<close> or \<open>null\<close> throws.
\<close>

definition get_prop :: "jsval \<Rightarrow> string \<Rightarrow> jserror + jsval" where
  "get_prop v k =
     (if v = JUndefined \<or> v = JNull
      then Inl \<lparr>response = JUndefined,
                message = JStr (''Cannot read properties of undefined or null'')\<rparr>
      else Inr (opt_get v k))"

text \<open>
  \<open>String.prototype.trim\<close>: strips white space and line terminators from both ends. Over
  one-byte code units these are TAB, LF, VT, FF, CR, SPACE and NBSP (U+00A0).
\<close>

definition is_space :: "char \<Rightarrow> bool" where
  "is_space c = (of_char c \<in> {9, 10, 11, 12, 13, 32, 160 :: nat})"

definition trim :: "string \<Rightarrow> string" where
  "trim s = rev (dropWhile is_space (rev (dropWhile is_space s)))"

section \<open>The API service layer (services/api.js)\<close>

datatype http_verb = GET | POST | PATCH

text \<open>
  A request of the Axios instance: \<open>api.get(url, {params})\<close>, \<open>api.post(url, body)\<close>,
  \<open>api.patch(url, body)\<close>. The url is a literal, or a template literal ending in one
  interpolated argument; \<open>payload\<close> is the body, or the \<open>params\<close> of a GET.
\<close>

datatype url = Url string | UrlWith string jsval

record request =
  verb :: http_verb
  target :: url
  payload :: jsval

text \<open>
  Where a handler is studied for what it stores and sends, the outcome of a call of the
  instance is a parameter \<open>api :: request \<Rightarrow> jserror + 'r\<close>: the call resolves to the
  response body or rejects with the error. The instance itself, with its two interceptors
  and what they do to the browser, is \<open>api_instance\<close> below.
\<close>

text \<open>A missing argument of a call is \<open>undefined\<close>.\<close>

definition arg :: "jsval list \<Rightarrow> nat \<Rightarrow> jsval" where
  "arg args i = (if i < length args then args ! i else JUndefined)"

text \<open>An API object: its methods by name, each building the request it sends.\<close>

type_synonym api_object = "(string \<times> (jsval list \<Rightarrow> request)) list"

definition productsAPI :: api_object where
  "productsAPI =
     [(''create'', \<lambda>args. \<lparr>verb = POST, target = Url ''/api/products'', payload = arg args 0\<rparr>),
      (''getAll'', \<lambda>args. \<lparr>verb = GET, target = Url ''/api/products'',
          payload = JObj [(''params'', if arg args 0 = JUndefined then JObj [] else arg args 0)]\<rparr>),
      (''getById'', \<lambda>args. \<lparr>verb = GET, target = UrlWith ''/api/products/'' (arg args 0),
          payload = JUndefined\<rparr>),
      (''verify'', \<lambda>args. \<lparr>verb = GET, target = UrlWith ''/api/products/verify/'' (arg args 0),
          payload = JUndefined\<rparr>),
      (''getByBlockchainId'', \<lambda>args. \<lparr>verb = GET,
          target = UrlWith ''/api/products/blockchain/'' (arg args 0), payload = JUndefined\<rparr>)]"

definition checkpointsAPI :: api_object where
  "checkpointsAPI =
     [(''create'', \<lambda>args. \<lparr>verb = POST, target = Url ''/api/checkpoints'', payload = arg args 0\<rparr>),
      (''getByProduct'', \<lambda>args. \<lparr>verb = GET,
          target = UrlWith ''/api/checkpoints/product/'' (arg args 0), payload = JUndefined\<rparr>),
      (''update'', \<lambda>args. \<lparr>verb = PATCH, target = UrlWith ''/api/checkpoints/'' (arg args 0),
          payload = arg args 1\<rparr>)]"

text \<open>
  What a page's collaborators are asked to do, in order: an HTTP request, a blockchain
  submission (\<open>registerProduct\<close> of the Web3 context) or a QR rendering.
\<close>

datatype call =
    HttpCall request
  | ChainCall jsval
  | QrCall jsval

text \<open>
  \<open>obj.m(args)\<close>: a method that the object does not define is \<open>undefined\<close>, and the
  call throws before any request is sent; otherwise the request goes to the instance.
\<close>

definition invoke ::
  "(request \<Rightarrow> jserror + 'r) \<Rightarrow> string \<Rightarrow> api_object \<Rightarrow> string \<Rightarrow> jsval list
     \<Rightarrow> call list \<times> (jserror + 'r)" where
  "invoke api objname obj m args =
     (case map_of obj m of
        None \<Rightarrow> ([], Inl (not_a_function objname m))
      | Some f \<Rightarrow> ([HttpCall (f args)], api (f args)))"

subsection \<open>The interceptors of the instance\<close>

text \<open>
  The constants of \<open>@/utils/constants\<close> that the interceptors read: the two storage
  keys of \<open>STORAGE_KEYS\<close> and four messages of \<open>ERROR_MESSAGES\<close>. They are parameters.
\<close>

record constants =
  AUTH_TOKEN :: string
  USER_DATA :: string
  FORBIDDEN :: jsval
  NOT_FOUND :: jsval
  SERVER_ERROR :: jsval
  NETWORK_ERROR :: jsval

text \<open>
  What the interceptors touch of the browser: \<open>localStorage\<close> and \<open>window.location.href\<close>.
  A \<open>browser option\<close> is \<open>None\<close> where \<open>typeof window\<close> is \<open>'undefined'\<close>.
\<close>

record browser =
  localStorage :: "string \<rightharpoonup> string"
  href :: string

text \<open>
  An error as the transport raises it, before the response interceptor: \<open>error.response\<close>
  (with \<open>status\<close> and \<open>data\<close>) when the server answered with an error status,
  \<open>error.request\<close> when a request was made, and \<open>error.message\<close>.
\<close>

record axios_error =
  raw_response :: jsval
  raw_request :: jsval
  raw_message :: jsval

text \<open>
  The request interceptor: the \<open>Authorization\<close> header it adds, \<open>Bearer\<close> and the stored
  token, when there is a window and a non-empty token.
\<close>

definition request_interceptor :: "constants \<Rightarrow> browser option \<Rightarrow> string option" where
  "request_interceptor k w =
     (case w of
        None \<Rightarrow> None
      | Some b \<Rightarrow>
          (case localStorage b (AUTH_TOKEN k) of
             None \<Rightarrow> None
           | Some token \<Rightarrow> if token = [] then None else Some (''Bearer '' @ token)))"

text \<open>
  The 401 branch: both storage keys removed, and \<open>window.location.href = '/login'\<close>.
\<close>

definition clear_session_and_redirect :: "constants \<Rightarrow> browser \<Rightarrow> browser" where
  "clear_session_and_redirect k b =
     b\<lparr>localStorage := (localStorage b)(AUTH_TOKEN k := None, USER_DATA k := None),
       href := ''/login''\<rparr>"

text \<open>The test \<open>error.response\<close> truthy with \<open>status === 401\<close>.\<close>

definition unauthorized :: "axios_error \<Rightarrow> bool" where
  "unauthorized e =
     (truthy (raw_response e) \<and> opt_get (raw_response e) ''status'' = JNum (Fin 401))"

text \<open>
  The error handler of the response interceptor: the \<open>switch\<close> on the status of a
  response, the network message when only a request was made, then the rejection with
  the same error object. It returns the error the caller catches and the browser it
  leaves.
\<close>

definition response_rejected ::
  "constants \<Rightarrow> browser option \<Rightarrow> axios_error \<Rightarrow> jserror \<times> browser option" where
  "response_rejected k w e =
     (if truthy (raw_response e) then
        (let status = opt_get (raw_response e) ''status'';
             data = opt_get (raw_response e) ''data''
         in if status = JNum (Fin 401) then
              (\<lparr>response = raw_response e, message = raw_message e\<rparr>,
               map_option (clear_session_and_redirect k) w)
            else if status = JNum (Fin 403) then
              (\<lparr>response = raw_response e, message = FORBIDDEN k\<rparr>, w)
            else if status = JNum (Fin 404) then
              (\<lparr>response = raw_response e, message = NOT_FOUND k\<rparr>, w)
            else if status = JNum (Fin 500) then
              (\<lparr>response = raw_response e, message = SERVER_ERROR k\<rparr>, w)
            else
              (\<lparr>response = raw_response e,
                message = js_or (opt_get data ''message'') (raw_message e)\<rparr>, w))
      else if truthy (raw_request e) then
        (\<lparr>response = raw_response e, message = NETWORK_ERROR k\<rparr>, w)
      else (\<lparr>response = raw_response e, message = raw_message e\<rparr>, w))"

text \<open>
  A call of the instance. The transport is given the header of the request interceptor
  and the request, and answers with the body of a successful response (what the response
  interceptor returns, \<open>response.data\<close>) or with an error. The call resolves or rejects,
  and leaves the browser as the response interceptor left it.
\<close>

definition api_instance ::
  "constants \<Rightarrow> (string option \<Rightarrow> request \<Rightarrow> axios_error + 'r) \<Rightarrow> browser option \<Rightarrow> request
     \<Rightarrow> (jserror + 'r) \<times> browser option" where
  "api_instance k transport w req =
     (case transport (request_interceptor k w) req of
        Inr body \<Rightarrow> (Inr body, w)
      | Inl e \<Rightarrow> (Inl (fst (response_rejected k w e)), snd (response_rejected k w e)))"

text \<open>The browser after the HTTP requests of a list of calls, in order.\<close>

fun browser_after ::
  "constants \<Rightarrow> (string option \<Rightarrow> request \<Rightarrow> axios_error + 'r) \<Rightarrow> call list \<Rightarrow> browser option
     \<Rightarrow> browser option" where
  "browser_after k transport [] w = w"
| "browser_after k transport (HttpCall req # cs) w =
     browser_after k transport cs (snd (api_instance k transport w req))"
| "browser_after k transport (c # cs) w = browser_after k transport cs w"

section \<open>The verification page (app/products/verify/page.jsx)\<close>

record verification =
  verified :: bool
  product :: jsval

text \<open>The page's state hooks; \<open>verificationResult\<close> and \<open>error\<close> start as \<open>null\<close>.\<close>

record verify_state =
  productId :: string
  scanning :: bool
  verificationResult :: "verification option"
  error :: jsval

definition initial_verify_state :: verify_state where
  "initial_verify_state =
     \<lparr>productId = [], scanning = False, verificationResult = None, error = JNull\<rparr>"

text \<open>
  \<open>handleVerify\<close>: the page state it leaves and the requests it sent, given the outcome
  \<open>api\<close> of the instance's calls. The \<open>finally\<close> block resets \<open>scanning\<close> on both paths.
  The browser side of the same click is \<open>verify_in_browser\<close> below.
\<close>

definition handleVerify ::
  "(request \<Rightarrow> jserror + jsval) \<Rightarrow> verify_state \<Rightarrow> verify_state \<times> call list" where
  "handleVerify api st =
     (if \<not> truthy (JStr (trim (productId st))) then (st, [])
      else
        let st1 = st\<lparr>scanning := True, error := JNull\<rparr>;
            r = invoke api ''productsAPI'' productsAPI ''verify'' [JStr (productId st)]
        in case snd r of
             Inr body \<Rightarrow>
               (if truthy body
                then st1\<lparr>verificationResult := Some \<lparr>verified = True, product = body\<rparr>,
                         scanning := False\<rparr>
                else st1\<lparr>verificationResult := Some \<lparr>verified = False, product = JNull\<rparr>,
                         scanning := False\<rparr>,
                fst r)
           | Inl err \<Rightarrow>
               (st1\<lparr>verificationResult := Some \<lparr>verified = False, product = JNull\<rparr>,
                    error := js_or (opt_get (opt_get (response err) ''data'') ''message'')
                                   (JStr ''Product not found''),
                    scanning := False\<rparr>,
                fst r))"

text \<open>
  What the page shows of its state: the input, the Verify button, and the result panel
  (heading without its check mark or cross, sentence, and the product details when
  verified with a truthy product). The \<open>error\<close> state is not read by the JSX.
\<close>

record result_panel =
  heading :: string
  sentence :: string
  details :: "jsval option"

record verify_view =
  input_value :: string
  button_disabled :: bool
  button_label :: string
  panel :: "result_panel option"

definition render_verify :: "verify_state \<Rightarrow> verify_view" where
  "render_verify st =
     \<lparr>input_value = productId st,
      button_disabled = (\<not> truthy (JStr (trim (productId st))) \<or> scanning st),
      button_label = (if scanning st then ''Verifying...'' else ''Verify''),
      panel =
        (case verificationResult st of
           None \<Rightarrow> None
         | Some res \<Rightarrow>
             Some \<lparr>heading = (if verified res then ''Product Verified'' else ''Product Not Found''),
                   sentence =
                     (if verified res
                      then ''This product is authentic and registered on the blockchain''
                      else ''This product could not be verified. It may be counterfeit.''),
                   details = (if verified res \<and> truthy (product res)
                              then Some (product res) else None)\<rparr>)\<rparr>"

text \<open>The outcome \<open>NotVerified\<close>: the result the page stores when it reports no product.\<close>

definition NotVerified :: verification where
  "NotVerified = \<lparr>verified = False, product = JNull\<rparr>"

text \<open>
  A click on Verify in the browser: \<open>handleVerify\<close> with the instance of \<open>api.js\<close> as its
  \<open>api\<close>, and the browser as the instance's response interceptor leaves it.
\<close>

definition verify_in_browser ::
  "constants \<Rightarrow> (string option \<Rightarrow> request \<Rightarrow> axios_error + jsval)
     \<Rightarrow> browser option \<times> verify_state \<Rightarrow> (browser option \<times> verify_state) \<times> call list" where
  "verify_in_browser k transport ws =
     (let r = handleVerify (\<lambda>req. fst (api_instance k transport (fst ws) req)) (snd ws)
      in ((browser_after k transport (snd r) (fst ws), fst r), snd r))"

section \<open>The registration form (components/products/ProductRegistrationForm.jsx)\<close>

text \<open>
  The form values the resolver validates. The text inputs deliver strings; \<open>productKey\<close>
  is the form's field \<open>productId\<close> (the verification page has a state of that name). The
  two temperature fields are kept after the schema's coercion \<open>Number(raw)\<close>: \<open>None\<close> is a
  raw value \<open>undefined\<close> (which \<open>optional()\<close> lets through), \<open>Some n\<close> the coerced number
  (an empty number input coerces to \<open>0\<close>). \<open>expiryDate\<close> is an optional string.
\<close>

record form_data =
  name :: string
  productKey :: string
  category :: string
  description :: string
  manufacturingDate :: string
  expiryDate :: "string option"
  originLocation :: string
  minTemperature :: "jsnum option"
  maxTemperature :: "jsnum option"

text \<open>
  A validation issue carries the path of the field it is attached to: a string shorter
  than its minimum (with the schema's message), a value of the wrong type (a number field
  that coerced to NaN; the message is the library's), or the refinement's issue.
\<close>

datatype issue =
    TooSmall string string
  | InvalidType string
  | Custom string string

fun issue_path :: "issue \<Rightarrow> string" where
  "issue_path (TooSmall p m) = p"
| "issue_path (InvalidType p) = p"
| "issue_path (Custom p m) = p"

fun is_invalid_type :: "issue \<Rightarrow> bool" where
  "is_invalid_type (InvalidType p) = True"
| "is_invalid_type i = False"

text \<open>\<open>z.string().min(n, msg)\<close> at a path.\<close>

definition string_min :: "string \<Rightarrow> nat \<Rightarrow> string \<Rightarrow> string \<Rightarrow> issue list" where
  "string_min p n msg v = (if length v < n then [TooSmall p msg] else [])"

text \<open>\<open>z.coerce.number().optional()\<close> at a path: NaN is not a number for the schema.\<close>

definition number_optional :: "string \<Rightarrow> jsnum option \<Rightarrow> issue list" where
  "number_optional p v = (case v of Some NaN \<Rightarrow> [InvalidType p] | _ \<Rightarrow> [])"

text \<open>The issues of the object schema, in the order of its keys.\<close>

definition field_issues :: "form_data \<Rightarrow> issue list" where
  "field_issues d =
     string_min ''name'' 3 ''Product name must be at least 3 characters'' (name d)
   @ string_min ''productId'' 3 ''Product ID must be at least 3 characters'' (productKey d)
   @ string_min ''category'' 1 ''Please select a category'' (category d)
   @ string_min ''description'' 10 ''Description must be at least 10 characters'' (description d)
   @ string_min ''manufacturingDate'' 1 ''Manufacturing date is required'' (manufacturingDate d)
   @ string_min ''originLocation'' 3 ''Origin location is required'' (originLocation d)
   @ number_optional ''minTemperature'' (minTemperature d)
   @ number_optional ''maxTemperature'' (maxTemperature d)"

text \<open>A field value as a JavaScript value: \<open>undefined\<close> when absent.\<close>

definition opt_num :: "jsnum option \<Rightarrow> jsval" where
  "opt_num v = (case v of None \<Rightarrow> JUndefined | Some n \<Rightarrow> JNum n)"

definition opt_str :: "string option \<Rightarrow> jsval" where
  "opt_str v = (case v of None \<Rightarrow> JUndefined | Some s \<Rightarrow> JStr s)"

text \<open>
  The callback of \<open>.refine\<close>:
  \<^verbatim>\<open>if (data.minTemperature && data.maxTemperature) return data.minTemperature < data.maxTemperature; return true;\<close>
\<close>

definition refinement :: "form_data \<Rightarrow> bool" where
  "refinement d =
     (if truthy (opt_num (minTemperature d)) \<and> truthy (opt_num (maxTemperature d))
      then (case (minTemperature d, maxTemperature d) of
              (Some a, Some b) \<Rightarrow> num_lt a b
            | _ \<Rightarrow> False)
      else True)"

text \<open>
  \<open>productSchema\<close>: the object's issues, then the refinement's issue at \<open>maxTemperature\<close>.
  The refinement runs unless a field failed its type check (the object parse is then
  aborted); a string that is too short does not stop it.
\<close>

definition productSchema :: "form_data \<Rightarrow> issue list" where
  "productSchema d =
     (if list_ex is_invalid_type (field_issues d) then field_issues d
      else if refinement d then field_issues d
      else field_issues d
           @ [Custom ''maxTemperature'' ''Min temperature must be less than max temperature''])"

text \<open>The values of the \<open>option\<close> elements of the category select, the empty one included.\<close>

definition category_options :: "string list" where
  "category_options =
     ['''', ''PHARMACEUTICALS'', ''ELECTRONICS'', ''LUXURY_GOODS'', ''FOOD_BEVERAGE'',
      ''AUTOMOTIVE'', ''OTHER'']"

text \<open>The paths of the schema's keys.\<close>

definition schema_paths :: "string list" where
  "schema_paths =
     [''name'', ''productId'', ''category'', ''description'', ''manufacturingDate'',
      ''expiryDate'', ''originLocation'', ''minTemperature'', ''maxTemperature'']"

datatype reg_phase = Idle | Registering | Success | Error

text \<open>
  The component's state hooks, and \<open>errors\<close> of the form library's \<open>formState\<close>. Initially
  \<open>Idle\<close>, the three values \<open>null\<close>, and no errors.
\<close>

record reg_state =
  registrationState :: reg_phase
  registeredProduct :: jsval
  qrCodeUrl :: jsval
  reg_error :: jsval
  errors :: "issue list"

definition initial_reg_state :: reg_state where
  "initial_reg_state =
     \<lparr>registrationState = Idle, registeredProduct = JNull, qrCodeUrl = JNull,
      reg_error = JNull, errors = []\<rparr>"

text \<open>
  The collaborators of one submission: the Axios instance, \<open>account\<close> and \<open>registerProduct\<close>
  of the Web3 context (\<open>None\<close>: the context provides no such function), and the QR service.
\<close>

record reg_env =
  env_api :: "request \<Rightarrow> jserror + jsval"
  account :: jsval
  registerProduct :: "(jsval \<Rightarrow> jserror + jsval) option"
  generateQRCode :: "jsval \<Rightarrow> jserror + jsval"

text \<open>Step 1's payload; \<open>x || null\<close> turns every falsy value into \<open>null\<close>.\<close>

definition productData :: "form_data \<Rightarrow> jsval" where
  "productData d =
     JObj [(''name'', JStr (name d)),
           (''productId'', JStr (productKey d)),
           (''category'', JStr (category d)),
           (''description'', JStr (description d)),
           (''manufacturingDate'', JStr (manufacturingDate d)),
           (''expiryDate'', js_or (opt_str (expiryDate d)) JNull),
           (''originLocation'', JStr (originLocation d)),
           (''minTemperature'', js_or (opt_num (minTemperature d)) JNull),
           (''maxTemperature'', js_or (opt_num (maxTemperature d)) JNull)]"

text \<open>The argument of the blockchain submission and of the QR rendering.\<close>

definition chain_args :: "reg_env \<Rightarrow> form_data \<Rightarrow> jsval" where
  "chain_args env d =
     JObj [(''productId'', JStr (productKey d)), (''name'', JStr (name d)),
           (''manufacturer'', account env)]"

definition qr_args :: "form_data \<Rightarrow> jsval \<Rightarrow> jsval" where
  "qr_args d rid = JObj [(''productId'', JStr (productKey d)), (''id'', rid)]"

text \<open>
  Step 2, the inner \<open>try\<close>: what it asks of the collaborators. Its \<open>catch\<close> logs and goes
  on, so the step changes no state. In \<open>productsAPI.updateBlockchainHash(apiResponse.id, txHash)\<close>
  the arguments are evaluated before the call is attempted.
\<close>

definition blockchain_step :: "reg_env \<Rightarrow> form_data \<Rightarrow> jsval \<Rightarrow> call list" where
  "blockchain_step env d apiResponse =
     (case registerProduct env of
        None \<Rightarrow> []
      | Some reg \<Rightarrow>
          if \<not> truthy (account env) then []
          else
            (case reg (chain_args env d) of
               Inl blockchainError \<Rightarrow> [ChainCall (chain_args env d)]
             | Inr txHash \<Rightarrow>
                 ChainCall (chain_args env d) #
                 (case get_prop apiResponse ''id'' of
                    Inl blockchainError \<Rightarrow> []
                  | Inr rid \<Rightarrow>
                      fst (invoke (env_api env) ''productsAPI'' productsAPI
                             ''updateBlockchainHash'' [rid, txHash]))))"

text \<open>
  The outer \<open>catch\<close>:
  \<^verbatim>\<open>setError(err.response?.data?.message || err.message || 'Failed to register product')\<close>
\<close>

definition registration_failed :: "jserror \<Rightarrow> reg_state \<Rightarrow> reg_state" where
  "registration_failed err st =
     st\<lparr>reg_error := js_or (opt_get (opt_get (response err) ''data'') ''message'')
                          (js_or (message err) (JStr ''Failed to register product'')),
        registrationState := Error\<rparr>"

text \<open>\<open>onSubmit\<close>, with what it asked of the collaborators, in order.\<close>

definition onSubmit :: "reg_env \<Rightarrow> form_data \<Rightarrow> reg_state \<Rightarrow> reg_state \<times> call list" where
  "onSubmit env d st =
     (let st1 = st\<lparr>registrationState := Registering, reg_error := JNull\<rparr>;
          created = invoke (env_api env) ''productsAPI'' productsAPI ''create'' [productData d]
      in case snd created of
           Inl err \<Rightarrow> (registration_failed err st1, fst created)
         | Inr apiResponse \<Rightarrow>
             (let chained = blockchain_step env d apiResponse
              in case get_prop apiResponse ''id'' of
                   Inl err \<Rightarrow> (registration_failed err st1, fst created @ chained)
                 | Inr rid \<Rightarrow>
                     (case generateQRCode env (qr_args d rid) of
                        Inl err \<Rightarrow>
                          (registration_failed err st1,
                           fst created @ chained @ [QrCall (qr_args d rid)])
                      | Inr qrCode \<Rightarrow>
                          (st1\<lparr>qrCodeUrl := qrCode, registeredProduct := apiResponse,
                               registrationState := Success\<rparr>,
                           fst created @ chained @ [QrCall (qr_args d rid)]))))"

text \<open>
  \<open>handleSubmit(onSubmit)\<close> with the schema as resolver: the form library validates first,
  and calls \<open>onSubmit\<close> only when there is no issue; otherwise it stores the issues.
\<close>

definition handleSubmit :: "reg_env \<Rightarrow> form_data \<Rightarrow> reg_state \<Rightarrow> reg_state \<times> call list" where
  "handleSubmit env d st =
     (if productSchema d = [] then onSubmit env d (st\<lparr>errors := []\<rparr>)
      else (st\<lparr>errors := productSchema d\<rparr>, []))"

text \<open>The anchor reference of a product, as the detail page reads it.\<close>

definition anchorReference :: "jsval \<Rightarrow> jsval" where
  "anchorReference p = opt_get p ''blockchainHash''"

section \<open>The product detail page (ProductDetailPage)\<close>

text \<open>
  What a query hook hands to the component: \<open>data\<close> (\<open>undefined\<close> until a fetch
  succeeded), \<open>isLoading\<close> and \<open>error\<close>.
\<close>

record 'a query_result =
  data :: 'a
  isLoading :: bool
  query_error :: "jserror option"

text \<open>
  An enabled query after its function has returned or thrown: a rejection (the query
  library repeats a failing call a few times first) ends as the error, with \<open>data\<close> still
  \<open>undefined\<close>. The first argument is the value \<open>undefined\<close> of the data's type.
\<close>

definition settled :: "'a \<Rightarrow> jserror + 'a \<Rightarrow> 'a query_result" where
  "settled undef r =
     (case r of
        Inl e \<Rightarrow> \<lparr>data = undef, isLoading = False, query_error = Some e\<rparr>
      | Inr v \<Rightarrow> \<lparr>data = v, isLoading = False, query_error = None\<rparr>)"

text \<open>The two query functions of the page, for the route parameter \<open>id\<close>.\<close>

definition product_queryFn ::
  "(request \<Rightarrow> jserror + 'r) \<Rightarrow> string \<Rightarrow> call list \<times> (jserror + 'r)" where
  "product_queryFn api pid = invoke api ''productsAPI'' productsAPI ''getById'' [JStr pid]"

definition checkpoints_queryFn ::
  "(request \<Rightarrow> jserror + 'r) \<Rightarrow> string \<Rightarrow> call list \<times> (jserror + 'r)" where
  "checkpoints_queryFn api pid =
     invoke api ''checkpointsAPI'' checkpointsAPI ''getByProductId'' [JStr pid]"

text \<open>
  \<^verbatim>\<open>data: { data: { product } = {} } = {}\<close>: a default replaces \<open>undefined\<close> only, so a
  \<open>null\<close> on the way throws.
\<close>

definition destructure_product :: "jsval \<Rightarrow> jserror + jsval" where
  "destructure_product d =
     (case get_prop (if d = JUndefined then JObj [] else d) ''data'' of
        Inl e \<Rightarrow> Inl e
      | Inr inner \<Rightarrow> get_prop (if inner = JUndefined then JObj [] else inner) ''product'')"

text \<open>
  A checkpoint as the timeline reads it. \<open>timestamp\<close> is the event time in milliseconds;
  the optional fields are \<open>None\<close> when absent.
\<close>

record checkpoint =
  cp_id :: string
  location :: string
  timestamp :: int
  status :: string
  temperature :: "jsnum option"
  latitude :: "jsnum option"
  longitude :: "jsnum option"
  cp_notes :: "string option"
  handledBy :: "string option"

text \<open>
  One card of the timeline: key, location, date, status badge, the parts shown only when
  their value is truthy, and the connector drawn below every card but the last.
\<close>

record card =
  card_key :: string
  card_location :: string
  card_date :: int
  card_status :: string
  card_temperature :: "jsnum option"
  card_position :: "(jsnum \<times> jsnum) option"
  card_notes :: "string option"
  card_handledBy :: "string option"
  card_connector :: bool

definition render_card :: "nat \<Rightarrow> nat \<times> checkpoint \<Rightarrow> card" where
  "render_card n ic =
     (let index = fst ic; c = snd ic in
      \<lparr>card_key = cp_id c,
       card_location = location c,
       card_date = timestamp c,
       card_status = status c,
       card_temperature =
         (if truthy (opt_num (temperature c)) then temperature c else None),
       card_position =
         (case (latitude c, longitude c) of
            (Some la, Some lo) \<Rightarrow>
              if num_truthy la \<and> num_truthy lo then Some (la, lo) else None
          | _ \<Rightarrow> None),
       card_notes = (if truthy (opt_str (cp_notes c)) then cp_notes c else None),
       card_handledBy = (if truthy (opt_str (handledBy c)) then handledBy c else None),
       card_connector = (int index < int n - 1)\<rparr>)"

datatype timeline_view =
    TLoading
  | TError string
  | TEmpty
  | TItems "card list"

text \<open>
  The Journey Timeline: the chain of conditionals on \<open>checkpointsLoading\<close>,
  \<open>checkpointsError\<close> and \<open>checkpoints\<close>, then \<open>checkpoints.map\<close>.
\<close>

definition timeline ::
  "bool \<Rightarrow> jserror option \<Rightarrow> checkpoint list option \<Rightarrow> timeline_view" where
  "timeline checkpointsLoading checkpointsError checkpoints =
     (if checkpointsLoading then TLoading
      else if checkpointsError \<noteq> None then TError ''Failed to load checkpoints''
      else (case checkpoints of
              None \<Rightarrow> TEmpty
            | Some cps \<Rightarrow>
                if length cps = 0 then TEmpty
                else TItems (map (render_card (length cps)) (enumerate 0 cps))))"

text \<open>The cards a timeline shows.\<close>

fun timeline_cards :: "timeline_view \<Rightarrow> card list" where
  "timeline_cards (TItems cs) = cs"
| "timeline_cards v = []"

text \<open>
  What the Days in Transit line shows: a whole number, \<open>NaN\<close>, or a number this model
  does not compute (see below).
\<close>

datatype day_count = Days int | NaN_days | Rounded_days

text \<open>
  Time values are integers of magnitude at most \<open>8.64e15\<close>. Where also their difference
  is below \<open>2^53\<close> in magnitude, the doubles compute exactly: the subtraction is exact, and
  the quotient by \<open>86400000\<close> is rounded by less than \<open>1/86400000\<close> (and not at all when
  it is whole), so \<open>Math.floor\<close> of it is the integer floor division.
\<close>

definition exact_range :: "int \<Rightarrow> int \<Rightarrow> bool" where
  "exact_range now created =
     (\<bar>now\<bar> \<le> 8640000000000000 \<and> \<bar>created\<bar> \<le> 8640000000000000
      \<and> \<bar>now - created\<bar> < 2 ^ 53)"

text \<open>
  Days in Transit:
  \<^verbatim>\<open>product.createdAt ? Math.floor((new Date() - new Date(product.createdAt)) / (1000 * 60 * 60 * 24)) : 0\<close>
  \<open>toTime v\<close> is the time value of \<open>new Date(v)\<close> in milliseconds, \<open>None\<close> for an invalid
  date; \<open>now\<close> is the time value of \<open>new Date()\<close>. Reading \<open>product.createdAt\<close> throws
  when there is no product. Outside the exact range the doubles round, and the model
  answers \<open>Rounded_days\<close> instead of a number.
\<close>

definition daysInTransit :: "(jsval \<Rightarrow> int option) \<Rightarrow> int \<Rightarrow> jsval \<Rightarrow> jserror + day_count" where
  "daysInTransit toTime now p =
     (case get_prop p ''createdAt'' of
        Inl e \<Rightarrow> Inl e
      | Inr createdAt \<Rightarrow>
          Inr (if truthy createdAt
               then (case toTime createdAt of
                       None \<Rightarrow> NaN_days
                     | Some created \<Rightarrow>
                         if exact_range now created
                         then Days ((now - created) div (1000 * 60 * 60 * 24))
                         else Rounded_days)
               else Days 0))"

text \<open>The parts of the page that depend on the checkpoints and on the clock.\<close>

record detail_view =
  journey :: timeline_view
  totalCheckpoints :: nat
  daysInTransitStat :: day_count

datatype page_view =
    PageLoading
  | ProductError jsval
  | RenderError jserror
  | Detail detail_view

text \<open>
  The component body, given what its two query hooks returned: the destructuring, the
  spinner, the product error page, then the page itself, whose header reads
  \<open>product.name\<close> first (and throws without a product).
\<close>

definition ProductDetailPage ::
  "(jsval \<Rightarrow> int option) \<Rightarrow> int \<Rightarrow> jsval query_result
     \<Rightarrow> (checkpoint list option) query_result \<Rightarrow> page_view" where
  "ProductDetailPage toTime now pq cq =
     (case destructure_product (data pq) of
        Inl e \<Rightarrow> RenderError e
      | Inr p \<Rightarrow>
          if isLoading pq \<or> isLoading cq then PageLoading
          else (case query_error pq of
                  Some productError \<Rightarrow>
                    ProductError (js_or (opt_get (opt_get (response productError) ''data'')
                                           ''message'')
                                        (JStr ''Failed to load product''))
                | None \<Rightarrow>
                    (case get_prop p ''name'' of
                       Inl e \<Rightarrow> RenderError e
                     | Inr n \<Rightarrow>
                         (case daysInTransit toTime now p of
                            Inl e \<Rightarrow> RenderError e
                          | Inr days \<Rightarrow>
                              Detail \<lparr>journey = timeline (isLoading cq) (query_error cq) (data cq),
                                      totalCheckpoints =
                                        (case data cq of None \<Rightarrow> 0 | Some cps \<Rightarrow> length cps),
                                      daysInTransitStat = days\<rparr>))))"

text \<open>
  The page for a non-empty route parameter once both queries have settled. The product
  endpoint answers with JSON; the checkpoint endpoint's body is taken as the page uses
  it, an array of checkpoints.
\<close>

definition settled_page ::
  "(request \<Rightarrow> jserror + jsval) \<Rightarrow> (request \<Rightarrow> jserror + checkpoint list option)
     \<Rightarrow> (jsval \<Rightarrow> int option) \<Rightarrow> int \<Rightarrow> string \<Rightarrow> page_view" where
  "settled_page api capi toTime now pid =
     ProductDetailPage toTime now
       (settled JUndefined (snd (product_queryFn api pid)))
       (settled None (snd (checkpoints_queryFn capi pid)))"

text \<open>The cards a page shows.\<close>

fun page_cards :: "page_view \<Rightarrow> card list" where
  "page_cards (Detail v) = timeline_cards (journey v)"
| "page_cards v = []"

section \<open>Requests and example inputs\<close>

text \<open>The request \<open>productsAPI.verify(s)\<close> sends.\<close>

definition verify_request :: "string \<Rightarrow> request" where
  "verify_request s =
     \<lparr>verb = GET, target = UrlWith ''/api/products/verify/'' (JStr s), payload = JUndefined\<rparr>"

text \<open>
  Four behaviours of the record store on a lookup: a 404 with a message, no answer at
  all, an empty body, and a body that says the product is not authentic.
\<close>

definition api_not_found :: "request \<Rightarrow> jserror + jsval" where
  "api_not_found req =
     Inl \<lparr>response = JObj [(''status'', JNum (Fin 404)),
                            (''data'', JObj [(''message'', JStr ''No product with this code'')])],
          message = JStr ''Resource not found''\<rparr>"

definition api_unreachable :: "request \<Rightarrow> jserror + jsval" where
  "api_unreachable req = Inl \<lparr>response = JUndefined, message = JStr ''Network Error''\<rparr>"

definition api_empty_body :: "request \<Rightarrow> jserror + jsval" where
  "api_empty_body req = Inr JNull"

definition api_not_authentic :: "request \<Rightarrow> jserror + jsval" where
  "api_not_authentic req = Inr (JObj [(''product'', JNull), (''isAuthentic'', JBool False)])"

text \<open>
  Constants, a signed-in browser on the verification page, and two transports: one that
  answers every request with a 401, one with a 404.
\<close>

definition example_constants :: constants where
  "example_constants =
     \<lparr>AUTH_TOKEN = ''auth_token'', USER_DATA = ''user_data'',
      FORBIDDEN = JStr ''Access denied'', NOT_FOUND = JStr ''Resource not found'',
      SERVER_ERROR = JStr ''Server error'', NETWORK_ERROR = JStr ''Network error''\<rparr>"

definition signed_in_browser :: browser where
  "signed_in_browser =
     \<lparr>localStorage = [''auth_token'' \<mapsto> ''jwt-1'', ''user_data'' \<mapsto> ''alice''],
      href = ''/products/verify''\<rparr>"

definition transport_unauthorized :: "string option \<Rightarrow> request \<Rightarrow> axios_error + jsval" where
  "transport_unauthorized auth req =
     Inl \<lparr>raw_response = JObj [(''status'', JNum (Fin 401)),
                                (''data'', JObj [(''message'', JStr ''Token expired'')])],
          raw_request = JObj [],
          raw_message = JStr ''Request failed with status code 401''\<rparr>"

definition transport_not_found :: "string option \<Rightarrow> request \<Rightarrow> axios_error + jsval" where
  "transport_not_found auth req =
     Inl \<lparr>raw_response = JObj [(''status'', JNum (Fin 404)),
                                (''data'', JObj [(''message'', JStr ''No product with this code'')])],
          raw_request = JObj [],
          raw_message = JStr ''Request failed with status code 404''\<rparr>"

text \<open>A fresh verification page with \<open>s\<close> typed into the input.\<close>

definition typed_state :: "string \<Rightarrow> verify_state" where
  "typed_state s = initial_verify_state\<lparr>productId := s\<rparr>"

text \<open>
  The page after a lookup of \<open>FAKE-001\<close> failed and the input was then replaced by three
  spaces.
\<close>

definition blank_after_failure :: verify_state where
  "blank_after_failure =
     (fst (handleVerify api_unreachable (typed_state ''FAKE-001'')))\<lparr>productId := ''   ''\<rparr>"

text \<open>The request \<open>productsAPI.create(productData)\<close> sends.\<close>

definition create_request :: "form_data \<Rightarrow> request" where
  "create_request d = \<lparr>verb = POST, target = Url ''/api/products'', payload = productData d\<rparr>"

text \<open>
  A valid registration, the same with a category that is not among the options, and the
  same with a minimum of 0 above a maximum of -5.
\<close>

definition valid_form :: form_data where
  "valid_form =
     \<lparr>name = ''Vaccine X'', productKey = ''PFZ-CV19-001'', category = ''PHARMACEUTICALS'',
      description = ''ten-character description'', manufacturingDate = ''2024-01-01'',
      expiryDate = None, originLocation = ''New York'',
      minTemperature = Some (Fin (-70)), maxTemperature = Some (Fin (-60))\<rparr>"

definition unlisted_category_form :: form_data where
  "unlisted_category_form = valid_form\<lparr>category := ''COUNTERFEIT_GOODS''\<rparr>"

definition zero_minimum_form :: form_data where
  "zero_minimum_form =
     valid_form\<lparr>minTemperature := Some (Fin 0), maxTemperature := Some (Fin (-5))\<rparr>"

definition inverted_range_form :: form_data where
  "inverted_range_form =
     valid_form\<lparr>minTemperature := Some (Fin (-60)), maxTemperature := Some (Fin (-70))\<rparr>"

text \<open>
  Collaborators: a record store that creates the record \<open>rec-1\<close>, a chain that returns a
  transaction hash and one that refuses, a QR service that renders and one that fails.
\<close>

definition created_record :: jsval where
  "created_record =
     JObj [(''id'', JStr ''rec-1''), (''productId'', JStr ''PFZ-CV19-001''),
           (''name'', JStr ''Vaccine X''), (''category'', JStr ''PHARMACEUTICALS''),
           (''status'', JStr ''CREATED'')]"

definition store_creates :: "request \<Rightarrow> jserror + jsval" where
  "store_creates req = Inr created_record"

definition chain_accepts :: "jsval \<Rightarrow> jserror + jsval" where
  "chain_accepts a = Inr (JStr ''0xabc123'')"

definition chain_refuses :: "jsval \<Rightarrow> jserror + jsval" where
  "chain_refuses a = Inl \<lparr>response = JUndefined, message = JStr ''user rejected transaction''\<rparr>"

definition qr_renders :: "jsval \<Rightarrow> jserror + jsval" where
  "qr_renders a = Inr (JStr ''data:image/png;base64,AAAA'')"

definition qr_fails :: "jsval \<Rightarrow> jserror + jsval" where
  "qr_fails a = Inl \<lparr>response = JUndefined, message = JStr ''QR rendering failed''\<rparr>"

definition env_anchored :: reg_env where
  "env_anchored =
     \<lparr>env_api = store_creates, account = JStr ''0xManufacturer'',
      registerProduct = Some chain_accepts, generateQRCode = qr_renders\<rparr>"

definition env_chain_refuses :: reg_env where
  "env_chain_refuses =
     \<lparr>env_api = store_creates, account = JStr ''0xManufacturer'',
      registerProduct = Some chain_refuses, generateQRCode = qr_renders\<rparr>"

definition env_chain_refuses_qr_fails :: reg_env where
  "env_chain_refuses_qr_fails =
     \<lparr>env_api = store_creates, account = JStr ''0xManufacturer'',
      registerProduct = Some chain_refuses, generateQRCode = qr_fails\<rparr>"

definition env_qr_fails :: reg_env where
  "env_qr_fails =
     \<lparr>env_api = store_creates, account = JNull,
      registerProduct = Some chain_accepts, generateQRCode = qr_fails\<rparr>"

text \<open>
  A clock reading of 2024-01-01T00:00:00Z, a date parser that knows two ISO strings, and
  products created a day after that reading, at that reading, and at a time that is not
  a date.
\<close>

definition example_now :: int where
  "example_now = 1704067200000"

definition example_toTime :: "jsval \<Rightarrow> int option" where
  "example_toTime v =
     (if v = JStr ''2024-01-02T00:00:00.000Z'' then Some 1704153600000
      else if v = JStr ''2024-01-01T00:00:00.000Z'' then Some 1704067200000
      else None)"

definition product_created_tomorrow :: jsval where
  "product_created_tomorrow =
     JObj [(''name'', JStr ''Vaccine X''), (''createdAt'', JStr ''2024-01-02T00:00:00.000Z'')]"

definition product_created_unparsable :: jsval where
  "product_created_unparsable =
     JObj [(''name'', JStr ''Vaccine X''), (''createdAt'', JStr ''last week'')]"

definition product_created_now :: jsval where
  "product_created_now =
     JObj [(''name'', JStr ''Vaccine X''), (''createdAt'', JStr ''2024-01-01T00:00:00.000Z'')]"

text \<open>Three checkpoints at times 1000 < 2000 < 3000, received latest first.\<close>

definition checkpoint_at :: "string \<Rightarrow> string \<Rightarrow> int \<Rightarrow> checkpoint" where
  "checkpoint_at i place t =
     \<lparr>cp_id = i, location = place, timestamp = t, status = ''IN_TRANSIT'',
      temperature = None, latitude = None, longitude = None, cp_notes = None,
      handledBy = None\<rparr>"

definition received_out_of_order :: "checkpoint list" where
  "received_out_of_order =
     [checkpoint_at ''c3'' ''Chicago'' 3000, checkpoint_at ''c1'' ''New York'' 1000,
      checkpoint_at ''c2'' ''Boston'' 2000]"

text \<open>The same three checkpoints received in the order of their times.\<close>

definition received_in_order :: "checkpoint list" where
  "received_in_order =
     [checkpoint_at ''c1'' ''New York'' 1000, checkpoint_at ''c2'' ''Boston'' 2000,
      checkpoint_at ''c3'' ''Chicago'' 3000]"

definition store_has_ordered_checkpoints :: "request \<Rightarrow> jserror + checkpoint list option" where
  "store_has_ordered_checkpoints req = Inr (Some received_in_order)"

text \<open>A record store that has the product and its three checkpoints.\<close>

definition store_has_product :: "request \<Rightarrow> jserror + jsval" where
  "store_has_product req = Inr (JObj [(''data'', JObj [(''product'', product_created_now)])])"

definition store_has_checkpoints :: "request \<Rightarrow> jserror + checkpoint list option" where
  "store_has_checkpoints req = Inr (Some received_out_of_order)"

section \<open>Properties of the verification page\<close>

lemma invoke_verify:
  "invoke api ''productsAPI'' productsAPI ''verify'' [JStr s]
     = ([HttpCall (verify_request s)], api (verify_request s))"
  by (simp add: invoke_def productsAPI_def verify_request_def arg_def)

text \<open>The guard \<open>!productId.trim()\<close> holds exactly on empty and white-space-only input.\<close>

lemma trim_empty_iff: "trim s = [] \<longleftrightarrow> (\<forall>c \<in> set s. is_space c)"
proof -
  have "dropWhile is_space (rev (dropWhile is_space s)) = [] \<longleftrightarrow> dropWhile is_space s = []"
  proof
    assume h: "dropWhile is_space (rev (dropWhile is_space s)) = []"
    show "dropWhile is_space s = []"
    proof (rule ccontr)
      assume ne: "dropWhile is_space s \<noteq> []"
      then have "\<not> is_space (hd (dropWhile is_space s))" by (rule hd_dropWhile)
      moreover have "hd (dropWhile is_space s) \<in> set (rev (dropWhile is_space s))"
        using ne by simp
      ultimately show False using h by (auto simp: dropWhile_eq_Nil_conv)
    qed
  next
    assume a: "dropWhile is_space s = []"
    show "dropWhile is_space (rev (dropWhile is_space s)) = []" by (simp add: a)
  qed
  then show ?thesis
    by (auto simp: trim_def dropWhile_eq_Nil_conv dest: set_dropWhileD)
qed

lemma handleVerify_rejected:
  assumes "trim (productId st) \<noteq> []" and "api (verify_request (productId st)) = Inl err"
  shows "handleVerify api st =
     (st\<lparr>scanning := False,
         error := js_or (opt_get (opt_get (response err) ''data'') ''message'')
                        (JStr ''Product not found''),
         verificationResult := Some NotVerified\<rparr>,
      [HttpCall (verify_request (productId st))])"
  using assms by (simp add: handleVerify_def invoke_verify NotVerified_def Let_def)

lemma handleVerify_resolved:
  assumes "trim (productId st) \<noteq> []" and "api (verify_request (productId st)) = Inr body"
  shows "handleVerify api st =
     (st\<lparr>scanning := False, error := JNull,
         verificationResult :=
           Some (if truthy body then \<lparr>verified = True, product = body\<rparr> else NotVerified)\<rparr>,
      [HttpCall (verify_request (productId st))])"
  using assms by (simp add: handleVerify_def invoke_verify NotVerified_def Let_def)

lemma handleVerify_blank:
  assumes "trim (productId st) = []"
  shows "handleVerify api st = (st, [])"
  using assms by (simp add: handleVerify_def)

lemma blank_after_failure_eq:
  "blank_after_failure =
     \<lparr>productId = ''   '', scanning = False, verificationResult = Some NotVerified,
      error = JStr ''Product not found''\<rparr>"
proof -
  have nb: "trim (productId (typed_state ''FAKE-001'')) \<noteq> []"
    by (simp add: typed_state_def initial_verify_state_def trim_def is_space_def)
  have h: "api_unreachable (verify_request (productId (typed_state ''FAKE-001'')))
      = Inl \<lparr>response = JUndefined, message = JStr ''Network Error''\<rparr>"
    by (simp add: api_unreachable_def)
  have "fst (handleVerify api_unreachable (typed_state ''FAKE-001''))
      = (typed_state ''FAKE-001'')\<lparr>scanning := False, error := JStr ''Product not found'',
           verificationResult := Some NotVerified\<rparr>"
    by (simp add: handleVerify_rejected [where api = api_unreachable, OF nb h] js_or_def)
  then show ?thesis
    by (simp add: blank_after_failure_def typed_state_def initial_verify_state_def)
qed

lemma response_rejected_browser:
  "snd (response_rejected k w e)
     = (if unauthorized e then map_option (clear_session_and_redirect k) w else w)"
  by (simp add: response_rejected_def unauthorized_def Let_def)

lemma response_rejected_response:
  "response (fst (response_rejected k w e)) = raw_response e"
  by (simp add: response_rejected_def Let_def)

lemma verify_in_browser_rejected:
  assumes "trim (productId st) \<noteq> []"
    and "transport (request_interceptor k w) (verify_request (productId st)) = Inl e"
  shows "verify_in_browser k transport (w, st) =
     ((if unauthorized e then map_option (clear_session_and_redirect k) w else w,
       st\<lparr>scanning := False,
          error := js_or (opt_get (opt_get (raw_response e) ''data'') ''message'')
                         (JStr ''Product not found''),
          verificationResult := Some NotVerified\<rparr>),
      [HttpCall (verify_request (productId st))])"
proof -
  have a: "(\<lambda>req. fst (api_instance k transport w req)) (verify_request (productId st))
      = Inl (fst (response_rejected k w e))"
    using assms(2) by (simp add: api_instance_def)
  have b: "snd (api_instance k transport w (verify_request (productId st)))
      = (if unauthorized e then map_option (clear_session_and_redirect k) w else w)"
    using assms(2) by (simp add: api_instance_def response_rejected_browser)
  show ?thesis
    using b
    by (simp add: verify_in_browser_def
          handleVerify_rejected [where api = "\<lambda>req. fst (api_instance k transport w req)",
            OF assms(1) a]
          response_rejected_response Let_def)
qed

text \<open>
  C1, as stated, fails: the caller can tell an unauthorized lookup from a product that
  does not exist. Both store \<open>NotVerified\<close>, but on a 401 the response interceptor of the
  instance also removes the stored session and sends the browser to \<open>/login\<close>, while on a
  404 the browser stays on the verification page, still signed in.
\<close>

theorem unauthorized_lookup_redirects:
  "verificationResult (snd (fst (verify_in_browser example_constants transport_unauthorized
       (Some signed_in_browser, typed_state ''PFZ-CV19-404'')))) = Some NotVerified
   \<and> verificationResult (snd (fst (verify_in_browser example_constants transport_not_found
       (Some signed_in_browser, typed_state ''PFZ-CV19-404'')))) = Some NotVerified
   \<and> map_option href (fst (fst (verify_in_browser example_constants transport_unauthorized
       (Some signed_in_browser, typed_state ''PFZ-CV19-404'')))) = Some ''/login''
   \<and> map_option href (fst (fst (verify_in_browser example_constants transport_not_found
       (Some signed_in_browser, typed_state ''PFZ-CV19-404'')))) = Some ''/products/verify''
   \<and> request_interceptor example_constants (Some signed_in_browser) = Some ''Bearer jwt-1''
   \<and> request_interceptor example_constants
        (fst (fst (verify_in_browser example_constants transport_unauthorized
           (Some signed_in_browser, typed_state ''PFZ-CV19-404'')))) = None
   \<and> request_interceptor example_constants
        (fst (fst (verify_in_browser example_constants transport_not_found
           (Some signed_in_browser, typed_state ''PFZ-CV19-404'')))) = Some ''Bearer jwt-1''"
proof -
  have nb: "trim (productId (typed_state ''PFZ-CV19-404'')) \<noteq> []"
    by (simp add: typed_state_def initial_verify_state_def trim_def is_space_def)
  have t4: "transport_not_found (request_interceptor example_constants (Some signed_in_browser))
        (verify_request (productId (typed_state ''PFZ-CV19-404'')))
      = Inl \<lparr>raw_response = JObj [(''status'', JNum (Fin 404)),
                                (''data'', JObj [(''message'', JStr ''No product with this code'')])],
          raw_request = JObj [],
          raw_message = JStr ''Request failed with status code 404''\<rparr>"
    by (simp add: transport_not_found_def)
  have t1: "transport_unauthorized (request_interceptor example_constants (Some signed_in_browser))
        (verify_request (productId (typed_state ''PFZ-CV19-404'')))
      = Inl \<lparr>raw_response = JObj [(''status'', JNum (Fin 401)),
                                (''data'', JObj [(''message'', JStr ''Token expired'')])],
          raw_request = JObj [],
          raw_message = JStr ''Request failed with status code 401''\<rparr>"
    by (simp add: transport_unauthorized_def)
  have r: "request_interceptor example_constants (Some signed_in_browser) = Some ''Bearer jwt-1''"
    by (simp add: request_interceptor_def example_constants_def signed_in_browser_def)
  have r': "request_interceptor example_constants
      (Some (clear_session_and_redirect example_constants signed_in_browser)) = None"
    by (simp add: request_interceptor_def example_constants_def signed_in_browser_def
          clear_session_and_redirect_def)
  have h: "href (clear_session_and_redirect example_constants signed_in_browser) = ''/login''"
      "href signed_in_browser = ''/products/verify''"
    by (simp_all add: clear_session_and_redirect_def signed_in_browser_def)
  show ?thesis
    by (simp add: verify_in_browser_rejected [where transport = transport_not_found
            and k = example_constants and w = "Some signed_in_browser", OF nb t4]
          verify_in_browser_rejected [where transport = transport_unauthorized
            and k = example_constants and w = "Some signed_in_browser", OF nb t1]
          unauthorized_def r r' h)
qed

text \<open>
  C1, amended. On a non-blank input, every rejection of the lookup, whatever its cause,
  sends the one request, stores the one result \<open>NotVerified\<close> (\<open>verified\<close> false, no
  product) and leaves the page showing the one panel \<open>Product Not Found\<close>. For every
  rejection other than a response of status 401 the browser is left as it was, so the
  caller cannot tell these causes apart; a 401 alone is told apart, by the cleared session
  and the redirect to \<open>/login\<close>.
\<close>

theorem rejected_lookup_shows_not_found:
  assumes "trim (productId st) \<noteq> []"
    and "transport (request_interceptor k w) (verify_request (productId st)) = Inl e"
  shows "snd (verify_in_browser k transport (w, st)) = [HttpCall (verify_request (productId st))]
       \<and> verificationResult (snd (fst (verify_in_browser k transport (w, st))))
           = Some \<lparr>verified = False, product = JNull\<rparr>
       \<and> render_verify (snd (fst (verify_in_browser k transport (w, st))))
           = \<lparr>input_value = productId st, button_disabled = False, button_label = ''Verify'',
              panel = Some \<lparr>heading = ''Product Not Found'',
                             sentence = ''This product could not be verified. It may be counterfeit.'',
                             details = None\<rparr>\<rparr>
       \<and> (\<not> unauthorized e \<longrightarrow> fst (fst (verify_in_browser k transport (w, st))) = w)
       \<and> (unauthorized e \<longrightarrow>
             fst (fst (verify_in_browser k transport (w, st)))
               = map_option (clear_session_and_redirect k) w)"
  using assms(1)
  by (simp add: verify_in_browser_rejected [where st = st and transport = transport
          and k = k and w = w, OF assms] render_verify_def NotVerified_def)

theorem rejected_lookup_shows_not_found_witness:
  "\<not> unauthorized \<lparr>raw_response = JObj [(''status'', JNum (Fin 404)),
                                (''data'', JObj [(''message'', JStr ''No product with this code'')])],
          raw_request = JObj [],
          raw_message = JStr ''Request failed with status code 404''\<rparr>
   \<and> verificationResult (snd (fst (verify_in_browser example_constants transport_not_found
       (Some signed_in_browser, typed_state ''PFZ-CV19-404'')))) = Some NotVerified
   \<and> panel (render_verify (snd (fst (verify_in_browser example_constants transport_not_found
       (Some signed_in_browser, typed_state ''PFZ-CV19-404'')))))
       = Some \<lparr>heading = ''Product Not Found'',
                sentence = ''This product could not be verified. It may be counterfeit.'',
                details = None\<rparr>
   \<and> fst (fst (verify_in_browser example_constants transport_not_found
       (Some signed_in_browser, typed_state ''PFZ-CV19-404''))) = Some signed_in_browser"
proof -
  have nb: "trim (productId (typed_state ''PFZ-CV19-404'')) \<noteq> []"
    by (simp add: typed_state_def initial_verify_state_def trim_def is_space_def)
  have t: "transport_not_found (request_interceptor example_constants (Some signed_in_browser))
        (verify_request (productId (typed_state ''PFZ-CV19-404'')))
      = Inl \<lparr>raw_response = JObj [(''status'', JNum (Fin 404)),
                                (''data'', JObj [(''message'', JStr ''No product with this code'')])],
          raw_request = JObj [],
          raw_message = JStr ''Request failed with status code 404''\<rparr>"
    by (simp add: transport_not_found_def)
  have u: "\<not> unauthorized \<lparr>raw_response = JObj [(''status'', JNum (Fin 404)),
                                (''data'', JObj [(''message'', JStr ''No product with this code'')])],
          raw_request = JObj [],
          raw_message = JStr ''Request failed with status code 404''\<rparr>"
    by (simp add: unauthorized_def)
  show ?thesis
    using u rejected_lookup_shows_not_found [where transport = transport_not_found
        and k = example_constants and w = "Some signed_in_browser", OF nb t]
    by (simp add: NotVerified_def)
qed

text \<open>
  The \<open>error\<close> state does keep the server's message apart from the default one, but no
  part of the page reads it.
\<close>

lemma error_state_differs_unseen:
  "error (fst (handleVerify api_not_found (typed_state ''PFZ-CV19-404'')))
     = JStr ''No product with this code''
   \<and> error (fst (handleVerify api_unreachable (typed_state ''PFZ-CV19-404'')))
     = JStr ''Product not found''"
proof -
  have nb: "trim (productId (typed_state ''PFZ-CV19-404'')) \<noteq> []"
    by (simp add: typed_state_def initial_verify_state_def trim_def is_space_def)
  have h1: "api_not_found (verify_request (productId (typed_state ''PFZ-CV19-404'')))
      = Inl \<lparr>response = JObj [(''status'', JNum (Fin 404)),
                            (''data'', JObj [(''message'', JStr ''No product with this code'')])],
          message = JStr ''Resource not found''\<rparr>"
    by (simp add: api_not_found_def)
  have h2: "api_unreachable (verify_request (productId (typed_state ''PFZ-CV19-404'')))
      = Inl \<lparr>response = JUndefined, message = JStr ''Network Error''\<rparr>"
    by (simp add: api_unreachable_def)
  show ?thesis
    by (simp add: handleVerify_rejected [where api = api_not_found, OF nb h1]
          handleVerify_rejected [where api = api_unreachable, OF nb h2] js_or_def)
qed

text \<open>
  C2. On a non-blank input, a lookup that resolves to a truthy body is reported as
  verified, with that body as the product, and one that resolves to a falsy body as not
  verified: the decision is the truthiness of the body. An object is always truthy, so a
  body whose \<open>isAuthentic\<close> is \<open>false\<close> or missing is reported as verified; the handler
  never reads that field.
\<close>

theorem verdict_is_truthiness_of_body:
  assumes "trim (productId st) \<noteq> []"
    and "api (verify_request (productId st)) = Inr body"
  shows "verificationResult (fst (handleVerify api st))
           = Some (if truthy body then \<lparr>verified = True, product = body\<rparr> else NotVerified)
       \<and> (body = JObj props \<longrightarrow>
            verificationResult (fst (handleVerify api st))
              = Some \<lparr>verified = True, product = JObj props\<rparr>)"
  using assms by (simp add: handleVerify_resolved)

theorem verdict_is_truthiness_of_body_witness:
  "trim (productId (typed_state ''PFZ-CV19-001'')) \<noteq> []
   \<and> api_not_authentic (verify_request (productId (typed_state ''PFZ-CV19-001'')))
       = Inr (JObj [(''product'', JNull), (''isAuthentic'', JBool False)])
   \<and> opt_get (JObj [(''product'', JNull), (''isAuthentic'', JBool False)]) ''isAuthentic''
       = JBool False
   \<and> verificationResult (fst (handleVerify api_not_authentic (typed_state ''PFZ-CV19-001'')))
       = Some \<lparr>verified = True,
                product = JObj [(''product'', JNull), (''isAuthentic'', JBool False)]\<rparr>"
proof -
  have nb: "trim (productId (typed_state ''PFZ-CV19-001'')) \<noteq> []"
    by (simp add: typed_state_def initial_verify_state_def trim_def is_space_def)
  have h: "api_not_authentic (verify_request (productId (typed_state ''PFZ-CV19-001'')))
       = Inr (JObj [(''product'', JNull), (''isAuthentic'', JBool False)])"
    by (simp add: api_not_authentic_def)
  show ?thesis
    using nb h verdict_is_truthiness_of_body [where api = api_not_authentic
        and props = "[(''product'', JNull), (''isAuthentic'', JBool False)]", OF nb h]
    by simp
qed

text \<open>
  C7, as stated, fails: a blank input produces no error outcome of its own. From a fresh
  page the handler returns the state as it was (no result, \<open>error\<close> still \<open>null\<close>); after a
  failed lookup, submitting three spaces leaves the page showing \<open>NotVerified\<close>.
\<close>

theorem blank_input_no_distinct_outcome:
  "trim (productId blank_after_failure) = []
   \<and> handleVerify api_unreachable blank_after_failure = (blank_after_failure, [])
   \<and> verificationResult (fst (handleVerify api_unreachable blank_after_failure))
       = Some NotVerified
   \<and> handleVerify api_unreachable (typed_state ''   '') = (typed_state ''   '', [])
   \<and> error (typed_state ''   '') = JNull
   \<and> verificationResult (typed_state ''   '') = None"
proof -
  have b1: "trim (productId blank_after_failure) = []"
    by (simp add: blank_after_failure_eq trim_def is_space_def)
  have b2: "trim (productId (typed_state ''   '')) = []"
    by (simp add: typed_state_def initial_verify_state_def trim_def is_space_def)
  have r: "verificationResult blank_after_failure = Some NotVerified"
    by (simp add: blank_after_failure_eq)
  show ?thesis
    using b1 r
    by (simp add: handleVerify_blank [OF b1] handleVerify_blank [OF b2])
       (simp add: typed_state_def initial_verify_state_def)
qed

text \<open>
  C7, amended. For every empty or white-space-only input, \<open>handleVerify\<close> returns before
  any request is sent and leaves the page state as it was: it stores no result and no
  error, so whatever the page showed before (nothing on a fresh page) stays.
\<close>

theorem blank_input_is_ignored:
  assumes "\<forall>c \<in> set (productId st). is_space c"
  shows "handleVerify api st = (st, [])"
  using assms by (simp add: handleVerify_blank trim_empty_iff)

theorem blank_input_is_ignored_witness:
  "list_all is_space (productId (typed_state '' ''))
   \<and> handleVerify api_not_found (typed_state '' '') = (typed_state '' '', [])
   \<and> handleVerify api_not_found (typed_state []) = (typed_state [], [])"
proof -
  have s1: "\<forall>c \<in> set (productId (typed_state '' '')). is_space c"
    by (simp add: typed_state_def initial_verify_state_def is_space_def)
  have s2: "\<forall>c \<in> set (productId (typed_state [])). is_space c"
    by (simp add: typed_state_def initial_verify_state_def)
  show ?thesis
    using s1 blank_input_is_ignored [where api = api_not_found, OF s1]
      blank_input_is_ignored [where api = api_not_found, OF s2]
    by (simp add: list_all_iff)
qed

section \<open>Properties of the registration form\<close>

lemma invoke_create:
  "invoke api ''productsAPI'' productsAPI ''create'' [productData d]
     = ([HttpCall (create_request d)], api (create_request d))"
  by (simp add: invoke_def productsAPI_def create_request_def arg_def)

lemma invoke_updateBlockchainHash:
  "invoke api ''productsAPI'' productsAPI ''updateBlockchainHash'' args
     = ([], Inl (not_a_function ''productsAPI'' ''updateBlockchainHash''))"
  by (simp add: invoke_def productsAPI_def)

lemma blockchain_step_cases:
  "blockchain_step env d r = [] \<or> blockchain_step env d r = [ChainCall (chain_args env d)]"
  by (simp add: blockchain_step_def invoke_updateBlockchainHash
           split: option.splits sum.splits)

lemma blockchain_step_anchored:
  assumes "registerProduct env = Some reg" and "truthy (account env)"
  shows "blockchain_step env d r = [ChainCall (chain_args env d)]"
  using assms
  by (simp add: blockchain_step_def invoke_updateBlockchainHash split: sum.splits)

lemma onSubmit_success:
  assumes "env_api env (create_request d) = Inr apiResponse"
    and "apiResponse \<noteq> JUndefined" and "apiResponse \<noteq> JNull"
    and "generateQRCode env (qr_args d (opt_get apiResponse ''id'')) = Inr qrCode"
  shows "onSubmit env d st =
     (st\<lparr>registrationState := Success, reg_error := JNull, qrCodeUrl := qrCode,
         registeredProduct := apiResponse\<rparr>,
      HttpCall (create_request d) # blockchain_step env d apiResponse
        @ [QrCall (qr_args d (opt_get apiResponse ''id''))])"
  using assms by (simp add: onSubmit_def invoke_create get_prop_def Let_def)

lemma onSubmit_qr_failure:
  assumes "env_api env (create_request d) = Inr apiResponse"
    and "apiResponse \<noteq> JUndefined" and "apiResponse \<noteq> JNull"
    and "generateQRCode env (qr_args d (opt_get apiResponse ''id'')) = Inl err"
  shows "onSubmit env d st =
     (registration_failed err (st\<lparr>registrationState := Registering, reg_error := JNull\<rparr>),
      HttpCall (create_request d) # blockchain_step env d apiResponse
        @ [QrCall (qr_args d (opt_get apiResponse ''id''))])"
  using assms by (simp add: onSubmit_def invoke_create get_prop_def Let_def)

lemma productSchema_paths: "set (map issue_path (productSchema d)) \<subseteq> set schema_paths"
  by (auto simp: productSchema_def field_issues_def string_min_def number_optional_def
        schema_paths_def split: option.splits jsnum.splits if_splits)

lemma field_issues_valid_form: "field_issues valid_form = []"
  unfolding field_issues_def string_min_def number_optional_def valid_form_def by simp

lemma productSchema_valid_form: "productSchema valid_form = []"
proof -
  have "refinement valid_form" by (simp add: refinement_def opt_num_def valid_form_def)
  then show ?thesis by (simp add: productSchema_def field_issues_valid_form)
qed

lemma productSchema_unlisted: "productSchema unlisted_category_form = []"
  by (simp add: productSchema_def field_issues_def string_min_def number_optional_def 
     refinement_def opt_num_def valid_form_def unlisted_category_form_def)

text \<open>
  The refinement tests the bounds for truthiness, so a bound equal to 0 counts as not
  given: a minimum of 0 above a maximum of -5 passes.
\<close>

lemma productSchema_zero: "productSchema zero_minimum_form = []"
  by (simp add: productSchema_def field_issues_def string_min_def number_optional_def 
     refinement_def opt_num_def valid_form_def zero_minimum_form_def)

lemma productSchema_inverted: "productSchema inverted_range_form = [Custom ''maxTemperature'' ''Min temperature must be less than max temperature'']"
  by (simp add: productSchema_def field_issues_def string_min_def number_optional_def 
     refinement_def opt_num_def valid_form_def inverted_range_form_def)

lemma violation_has_issue:
  assumes "length (name d) < 3 \<or> length (productKey d) < 3 \<or> category d = []
         \<or> length (description d) < 10 \<or> manufacturingDate d = []
         \<or> length (originLocation d) < 3
         \<or> (\<exists>a b. minTemperature d = Some a \<and> maxTemperature d = Some b
                \<and> num_truthy a \<and> num_truthy b \<and> \<not> num_lt a b)"
  shows "productSchema d \<noteq> []"
proof (cases "field_issues d = []")
  case False
  then show ?thesis by (simp add: productSchema_def)
next
  case True
  then have strs: "\<not> length (name d) < 3" "\<not> length (productKey d) < 3" "category d \<noteq> []"
      "\<not> length (description d) < 10" "manufacturingDate d \<noteq> []"
      "\<not> length (originLocation d) < 3"
    by (auto simp: field_issues_def string_min_def split: if_splits)
  with assms obtain a b where "minTemperature d = Some a" "maxTemperature d = Some b"
      "num_truthy a" "num_truthy b" "\<not> num_lt a b"
    by blast
  then have "\<not> refinement d" by (simp add: refinement_def opt_num_def)
  with True show ?thesis by (simp add: productSchema_def)
qed

text \<open>
  C3, amended. For every registration input that violates a constraint of the schema
  (name under 3 characters, product id under 3, category empty, description under 10,
  manufacturing date empty, origin location under 3, or both temperature bounds given and
  non-zero with the minimum not below the maximum), the submission fails with issues
  that each carry the path of a schema field, nothing is asked of any collaborator, and
  the only change to the state is the stored issues.
\<close>

theorem validation_blocks_submission:
  assumes "length (name d) < 3 \<or> length (productKey d) < 3 \<or> category d = []
         \<or> length (description d) < 10 \<or> manufacturingDate d = []
         \<or> length (originLocation d) < 3
         \<or> (\<exists>a b. minTemperature d = Some a \<and> maxTemperature d = Some b
                \<and> num_truthy a \<and> num_truthy b \<and> \<not> num_lt a b)"
  shows "errors (fst (handleSubmit env d st)) \<noteq> []
       \<and> set (map issue_path (errors (fst (handleSubmit env d st)))) \<subseteq> set schema_paths
       \<and> snd (handleSubmit env d st) = []
       \<and> fst (handleSubmit env d st) = st\<lparr>errors := productSchema d\<rparr>"
  using violation_has_issue [OF assms] productSchema_paths [of d]
  by (simp add: handleSubmit_def)

theorem validation_blocks_submission_witness:
  "errors (fst (handleSubmit env_anchored inverted_range_form initial_reg_state))
     = [Custom ''maxTemperature'' ''Min temperature must be less than max temperature'']
   \<and> snd (handleSubmit env_anchored inverted_range_form initial_reg_state) = []"
proof -
  have h: "length (name inverted_range_form) < 3 \<or> length (productKey inverted_range_form) < 3 \<or> category inverted_range_form = []
         \<or> length (description inverted_range_form) < 10 \<or> manufacturingDate inverted_range_form = []
         \<or> length (originLocation inverted_range_form) < 3
         \<or> (\<exists>a b. minTemperature inverted_range_form = Some a \<and> maxTemperature inverted_range_form = Some b
                \<and> num_truthy a \<and> num_truthy b \<and> \<not> num_lt a b)"
    by (simp add: inverted_range_form_def valid_form_def)
  show ?thesis
    using validation_blocks_submission [OF h, of env_anchored initial_reg_state]
    by (simp add: productSchema_inverted)
qed

text \<open>
  C3, as stated, fails twice. The schema asks of the category only that it is not empty:
  a category outside the enumeration of the select passes validation, and the record is
  created. And with both temperature bounds given, a minimum of 0 and a maximum of -5
  pass: the minimum is not below the maximum, yet the create request is sent.
\<close>

theorem validation_gaps:
  "category unlisted_category_form \<notin> set category_options
   \<and> errors (fst (handleSubmit env_anchored unlisted_category_form initial_reg_state)) = []
   \<and> registrationState (fst (handleSubmit env_anchored unlisted_category_form initial_reg_state))
       = Success
   \<and> snd (handleSubmit env_anchored unlisted_category_form initial_reg_state)
       = [HttpCall (create_request unlisted_category_form),
          ChainCall (chain_args env_anchored unlisted_category_form),
          QrCall (qr_args unlisted_category_form (JStr ''rec-1''))]
   \<and> minTemperature zero_minimum_form = Some (Fin 0)
   \<and> maxTemperature zero_minimum_form = Some (Fin (- 5))
   \<and> \<not> num_lt (Fin 0) (Fin (- 5))
   \<and> errors (fst (handleSubmit env_anchored zero_minimum_form initial_reg_state)) = []
   \<and> snd (handleSubmit env_anchored zero_minimum_form initial_reg_state)
       = [HttpCall (create_request zero_minimum_form),
          ChainCall (chain_args env_anchored zero_minimum_form),
          QrCall (qr_args zero_minimum_form (JStr ''rec-1''))]"
proof -
  have c: "env_api env_anchored (create_request d) = Inr created_record" for d
    by (simp add: env_anchored_def store_creates_def)
  have n: "created_record \<noteq> JUndefined" "created_record \<noteq> JNull"
    by (simp_all add: created_record_def)
  have i: "opt_get created_record ''id'' = JStr ''rec-1''"
    by (simp add: created_record_def)
  have q: "generateQRCode env_anchored (qr_args d (opt_get created_record ''id''))
       = Inr (JStr ''data:image/png;base64,AAAA'')" for d
    by (simp add: env_anchored_def qr_renders_def)
  have b: "blockchain_step env_anchored d created_record
       = [ChainCall (chain_args env_anchored d)]" for d
    by (rule blockchain_step_anchored [where reg = chain_accepts])
       (simp_all add: env_anchored_def)
  have m: "category unlisted_category_form \<notin> set category_options"
    by (simp add: unlisted_category_form_def valid_form_def category_options_def)
  have z: "minTemperature zero_minimum_form = Some (Fin 0)"
      "maxTemperature zero_minimum_form = Some (Fin (- 5))"
    by (simp_all add: zero_minimum_form_def)
  have u: "handleSubmit env_anchored unlisted_category_form initial_reg_state
      = (initial_reg_state\<lparr>errors := [], registrationState := Success, reg_error := JNull,
           qrCodeUrl := JStr ''data:image/png;base64,AAAA'',
           registeredProduct := created_record\<rparr>,
         [HttpCall (create_request unlisted_category_form),
          ChainCall (chain_args env_anchored unlisted_category_form),
          QrCall (qr_args unlisted_category_form (JStr ''rec-1''))])"
    by (simp add: handleSubmit_def productSchema_unlisted onSubmit_success [OF c n q] b i)
  have v: "handleSubmit env_anchored zero_minimum_form initial_reg_state
      = (initial_reg_state\<lparr>errors := [], registrationState := Success, reg_error := JNull,
           qrCodeUrl := JStr ''data:image/png;base64,AAAA'',
           registeredProduct := created_record\<rparr>,
         [HttpCall (create_request zero_minimum_form),
          ChainCall (chain_args env_anchored zero_minimum_form),
          QrCall (qr_args zero_minimum_form (JStr ''rec-1''))])"
    by (simp add: handleSubmit_def productSchema_zero onSubmit_success [OF c n q] b i)
  show ?thesis
    using m z by (simp add: u v)
qed

lemma created_record_facts:
  "created_record \<noteq> JUndefined" "created_record \<noteq> JNull"
  "opt_get created_record ''id'' = JStr ''rec-1''"
  "anchorReference created_record = JUndefined"
  by (simp_all add: created_record_def anchorReference_def)

text \<open>
  C4, as stated, fails twice. With a signing identity, a successful create and a
  successful anchoring that returned \<open>0xabc123\<close>, the product the form returns is the
  create response, which has no anchor reference. And when the anchoring fails, success
  still hangs on the QR rendering: if that fails too, the form ends in the error state.
\<close>

theorem anchor_reference_not_returned:
  "env_api env_anchored (create_request valid_form) = Inr created_record
   \<and> truthy (account env_anchored)
   \<and> registerProduct env_anchored = Some chain_accepts
   \<and> chain_accepts (chain_args env_anchored valid_form) = Inr (JStr ''0xabc123'')
   \<and> registrationState (fst (onSubmit env_anchored valid_form initial_reg_state)) = Success
   \<and> registeredProduct (fst (onSubmit env_anchored valid_form initial_reg_state)) = created_record
   \<and> anchorReference (registeredProduct (fst (onSubmit env_anchored valid_form initial_reg_state)))
       = JUndefined
   \<and> env_api env_chain_refuses_qr_fails (create_request valid_form) = Inr created_record
   \<and> truthy (account env_chain_refuses_qr_fails)
   \<and> registerProduct env_chain_refuses_qr_fails = Some chain_refuses
   \<and> registrationState (fst (onSubmit env_chain_refuses_qr_fails valid_form initial_reg_state))
       = Error"
proof -
  have c: "env_api env_anchored (create_request valid_form) = Inr created_record"
    by (simp add: env_anchored_def store_creates_def)
  have q: "generateQRCode env_anchored (qr_args valid_form (opt_get created_record ''id''))
       = Inr (JStr ''data:image/png;base64,AAAA'')"
    by (simp add: env_anchored_def qr_renders_def)
  have e: "truthy (account env_anchored)" "registerProduct env_anchored = Some chain_accepts"
    by (simp_all add: env_anchored_def)
  have c': "env_api env_chain_refuses_qr_fails (create_request valid_form) = Inr created_record"
    by (simp add: env_chain_refuses_qr_fails_def store_creates_def)
  have q': "generateQRCode env_chain_refuses_qr_fails
         (qr_args valid_form (opt_get created_record ''id''))
       = Inl \<lparr>response = JUndefined, message = JStr ''QR rendering failed''\<rparr>"
    by (simp add: env_chain_refuses_qr_fails_def qr_fails_def)
  have e': "truthy (account env_chain_refuses_qr_fails)"
      "registerProduct env_chain_refuses_qr_fails = Some chain_refuses"
    by (simp_all add: env_chain_refuses_qr_fails_def)
  show ?thesis
    using c e c' e'
    by (simp add: onSubmit_success [OF c created_record_facts(1,2) q] created_record_facts(4)
          chain_accepts_def onSubmit_qr_failure [OF c' created_record_facts(1,2) q']
          registration_failed_def)
qed

text \<open>
  C4, amended. For every registration where the create succeeds with an object and the QR
  rendering then succeeds, the outcome does not depend on the blockchain step: whatever
  the signing identity and whether the anchoring fails or succeeds, registration reports
  success and the returned product is the create response as it came, so its anchor
  reference is the one that response had.
\<close>

theorem anchoring_leaves_result_unchanged:
  assumes "env_api env (create_request d) = Inr apiResponse"
    and "apiResponse \<noteq> JUndefined" and "apiResponse \<noteq> JNull"
    and "generateQRCode env (qr_args d (opt_get apiResponse ''id'')) = Inr qrCode"
  shows "registrationState (fst (onSubmit env d st)) = Success
       \<and> registeredProduct (fst (onSubmit env d st)) = apiResponse
       \<and> anchorReference (registeredProduct (fst (onSubmit env d st)))
           = anchorReference apiResponse
       \<and> qrCodeUrl (fst (onSubmit env d st)) = qrCode
       \<and> fst (onSubmit env d st)
           = fst (onSubmit (env\<lparr>account := acc, registerProduct := reg\<rparr>) d st)"
proof -
  have "fst (onSubmit (env\<lparr>account := acc, registerProduct := reg\<rparr>) d st)
      = st\<lparr>registrationState := Success, reg_error := JNull, qrCodeUrl := qrCode,
           registeredProduct := apiResponse\<rparr>"
    using assms
    by (simp add: onSubmit_success [where env = "env\<lparr>account := acc, registerProduct := reg\<rparr>"
          and apiResponse = apiResponse and qrCode = qrCode])
  then show ?thesis by (simp add: onSubmit_success [OF assms])
qed

theorem anchoring_leaves_result_unchanged_witness:
  "chain_refuses (chain_args env_chain_refuses valid_form)
     = Inl \<lparr>response = JUndefined, message = JStr ''user rejected transaction''\<rparr>
   \<and> registrationState (fst (onSubmit env_chain_refuses valid_form initial_reg_state)) = Success
   \<and> registeredProduct (fst (onSubmit env_chain_refuses valid_form initial_reg_state))
       = created_record
   \<and> anchorReference (registeredProduct (fst (onSubmit env_chain_refuses valid_form initial_reg_state)))
       = JUndefined
   \<and> fst (onSubmit env_chain_refuses valid_form initial_reg_state)
       = fst (onSubmit env_anchored valid_form initial_reg_state)"
proof -
  have c: "env_api env_chain_refuses (create_request valid_form) = Inr created_record"
    by (simp add: env_chain_refuses_def store_creates_def)
  have q: "generateQRCode env_chain_refuses (qr_args valid_form (opt_get created_record ''id''))
       = Inr (JStr ''data:image/png;base64,AAAA'')"
    by (simp add: env_chain_refuses_def qr_renders_def)
  have e: "env_chain_refuses\<lparr>account := JStr ''0xManufacturer'',
              registerProduct := Some chain_accepts\<rparr> = env_anchored"
    by (simp add: env_chain_refuses_def env_anchored_def)
  show ?thesis
    using anchoring_leaves_result_unchanged [OF c created_record_facts(1,2) q,
        where st = initial_reg_state and acc = "JStr ''0xManufacturer''"
        and reg = "Some chain_accepts"]
    unfolding e by (auto simp add: created_record_facts(4) chain_refuses_def)
qed

text \<open>The blockchain step never sends an HTTP request.\<close>

lemma blockchain_step_sends_no_request:
  "HttpCall req \<notin> set (blockchain_step env d apiResponse)"
  using blockchain_step_cases [of env d apiResponse] by auto

text \<open>
  C5. \<open>productsAPI\<close> defines no \<open>updateBlockchainHash\<close>. In a registration whose anchoring
  succeeded, the attempted update throws inside the inner \<open>try\<close>: the only request ever
  sent is the create, and registration still reports success.
\<close>

theorem anchor_reference_update_never_sent:
  "map_of productsAPI ''updateBlockchainHash'' = None
   \<and> chain_accepts (chain_args env_anchored valid_form) = Inr (JStr ''0xabc123'')
   \<and> registrationState (fst (onSubmit env_anchored valid_form initial_reg_state)) = Success
   \<and> snd (onSubmit env_anchored valid_form initial_reg_state)
       = [HttpCall (create_request valid_form),
          ChainCall (chain_args env_anchored valid_form),
          QrCall (qr_args valid_form (JStr ''rec-1''))]"
proof -
  have c: "env_api env_anchored (create_request valid_form) = Inr created_record"
    by (simp add: env_anchored_def store_creates_def)
  have q: "generateQRCode env_anchored (qr_args valid_form (opt_get created_record ''id''))
       = Inr (JStr ''data:image/png;base64,AAAA'')"
    by (simp add: env_anchored_def qr_renders_def)
  have b: "blockchain_step env_anchored valid_form created_record
       = [ChainCall (chain_args env_anchored valid_form)]"
    by (rule blockchain_step_anchored [where reg = chain_accepts])
       (simp_all add: env_anchored_def)
  have m: "map_of productsAPI ''updateBlockchainHash'' = None"
    by (simp add: productsAPI_def)
  show ?thesis
    using m
    by (simp add: onSubmit_success [OF c created_record_facts(1,2) q] b
          created_record_facts(3) chain_accepts_def)
qed

text \<open>
  C6, as stated, fails: the create succeeds, the QR rendering fails, and the form ends in
  the error state with no registered product.
\<close>

theorem qr_failure_reports_error:
  "env_api env_qr_fails (create_request valid_form) = Inr created_record
   \<and> registrationState (fst (onSubmit env_qr_fails valid_form initial_reg_state)) = Error
   \<and> registeredProduct (fst (onSubmit env_qr_fails valid_form initial_reg_state)) = JNull
   \<and> reg_error (fst (onSubmit env_qr_fails valid_form initial_reg_state))
       = JStr ''QR rendering failed''"
proof -
  have c: "env_api env_qr_fails (create_request valid_form) = Inr created_record"
    by (simp add: env_qr_fails_def store_creates_def)
  have q: "generateQRCode env_qr_fails (qr_args valid_form (opt_get created_record ''id''))
       = Inl \<lparr>response = JUndefined, message = JStr ''QR rendering failed''\<rparr>"
    by (simp add: env_qr_fails_def qr_fails_def)
  show ?thesis
    using c
    by (simp add: onSubmit_qr_failure [OF c created_record_facts(1,2) q]
          registration_failed_def js_or_def initial_reg_state_def)
qed

text \<open>
  C6, amended. For every registration in which the create succeeds with an object but the
  QR rendering fails, \<open>onSubmit\<close> ends in the error state with the message taken from the
  rendering error; the registered product and the QR image keep their previous values
  (\<open>null\<close> on a fresh form), although the create request has been sent.
\<close>

theorem qr_failure_aborts_registration:
  assumes "env_api env (create_request d) = Inr apiResponse"
    and "apiResponse \<noteq> JUndefined" and "apiResponse \<noteq> JNull"
    and "generateQRCode env (qr_args d (opt_get apiResponse ''id'')) = Inl err"
  shows "registrationState (fst (onSubmit env d st)) = Error
       \<and> registeredProduct (fst (onSubmit env d st)) = registeredProduct st
       \<and> qrCodeUrl (fst (onSubmit env d st)) = qrCodeUrl st
       \<and> reg_error (fst (onSubmit env d st))
           = js_or (opt_get (opt_get (response err) ''data'') ''message'')
                   (js_or (message err) (JStr ''Failed to register product''))
       \<and> HttpCall (create_request d) \<in> set (snd (onSubmit env d st))"
  by (simp add: onSubmit_qr_failure [OF assms] registration_failed_def)

theorem qr_failure_aborts_registration_witness:
  "registrationState (fst (onSubmit env_qr_fails valid_form initial_reg_state)) = Error
   \<and> registeredProduct (fst (onSubmit env_qr_fails valid_form initial_reg_state))
       = registeredProduct initial_reg_state
   \<and> qrCodeUrl (fst (onSubmit env_qr_fails valid_form initial_reg_state)) = JNull"
proof -
  have c: "env_api env_qr_fails (create_request valid_form) = Inr created_record"
    by (simp add: env_qr_fails_def store_creates_def)
  have q: "generateQRCode env_qr_fails (qr_args valid_form (opt_get created_record ''id''))
       = Inl \<lparr>response = JUndefined, message = JStr ''QR rendering failed''\<rparr>"
    by (simp add: env_qr_fails_def qr_fails_def)
  show ?thesis
    using qr_failure_aborts_registration [OF c created_record_facts(1,2) q,
        where st = initial_reg_state]
    by (simp add: initial_reg_state_def)
qed

section \<open>Properties of the product detail page\<close>

text \<open>
  \<open>checkpointsAPI\<close> defines no \<open>getByProductId\<close>: the query function throws before any
  request is sent, whatever the record store would have answered.
\<close>

lemma checkpoints_queryFn_rejects:
  "checkpoints_queryFn capi pid = ([], Inl (not_a_function ''checkpointsAPI'' ''getByProductId''))"
  by (simp add: checkpoints_queryFn_def invoke_def checkpointsAPI_def)

text \<open>
  The page for the stored product \<open>rec-1\<close>, whatever the checkpoint endpoint would answer.
\<close>

lemma settled_product_page:
  "settled_page store_has_product capi example_toTime example_now ''rec-1''
     = Detail \<lparr>journey = TError ''Failed to load checkpoints'', totalCheckpoints = 0,
               daysInTransitStat = Days 0\<rparr>"
proof -
  have p: "snd (product_queryFn store_has_product ''rec-1'')
      = Inr (JObj [(''data'', JObj [(''product'', product_created_now)])])"
    by (simp add: product_queryFn_def invoke_def productsAPI_def store_has_product_def)
  have d: "daysInTransit example_toTime example_now product_created_now = Inr (Days 0)"
    by (simp add: daysInTransit_def get_prop_def product_created_now_def example_toTime_def
          example_now_def exact_range_def)
  have x: "destructure_product (JObj [(''data'', JObj [(''product'', product_created_now)])])
      = Inr product_created_now"
    by (simp add: destructure_product_def get_prop_def)
  have nm: "get_prop product_created_now ''name'' = Inr (JStr ''Vaccine X'')"
    by (simp add: get_prop_def product_created_now_def)
  show ?thesis
    by (simp add: settled_page_def ProductDetailPage_def p settled_def x nm d
          checkpoints_queryFn_rejects timeline_def)
qed

text \<open>
  C9. The page does not present the checkpoints at all, in any order. For a product whose
  three checkpoints the record store holds, at times 1000 < 2000 < 3000 and already in
  that order, the query function calls the undefined \<open>checkpointsAPI.getByProductId\<close>,
  and the settled page shows the error message in place of the timeline and no card.
\<close>

theorem timeline_never_shows_checkpoints:
  "map timestamp received_in_order = [1000, 2000, 3000]
   \<and> store_has_ordered_checkpoints
        \<lparr>verb = GET, target = UrlWith ''/api/checkpoints/product/'' (JStr ''rec-1''),
         payload = JUndefined\<rparr> = Inr (Some received_in_order)
   \<and> settled_page store_has_product store_has_ordered_checkpoints example_toTime example_now
        ''rec-1''
       = Detail \<lparr>journey = TError ''Failed to load checkpoints'', totalCheckpoints = 0,
                 daysInTransitStat = Days 0\<rparr>
   \<and> map card_date (page_cards (settled_page store_has_product store_has_ordered_checkpoints
        example_toTime example_now ''rec-1'')) = []"
  by (simp add: settled_product_page received_in_order_def checkpoint_at_def
        store_has_ordered_checkpoints_def)

text \<open>
  Where a checkpoint sequence does reach \<open>checkpoints.map\<close>, the cards follow the order of
  the sequence: the component sorts nothing.
\<close>

lemma timeline_cards_of_list:
  "timeline_cards (timeline False None (Some cps))
     = map (render_card (length cps)) (enumerate 0 cps)"
  by (cases cps) (simp_all add: timeline_def)

lemma map_snd_enumerate: "map (f \<circ> snd) (enumerate n xs) = map f xs"
  by (induction xs arbitrary: n) simp_all

lemma timeline_cards_in_received_order:
  "map card_key (timeline_cards (timeline False None (Some cps))) = map cp_id cps
   \<and> map card_date (timeline_cards (timeline False None (Some cps))) = map timestamp cps
   \<and> map card_location (timeline_cards (timeline False None (Some cps))) = map location cps"
proof -
  have k: "card_key \<circ> render_card n = cp_id \<circ> snd" 
    and d: "card_date \<circ> render_card n = timestamp \<circ> snd"
    and l: "card_location \<circ> render_card n = location \<circ> snd" for n
    by (auto simp: render_card_def Let_def fun_eq_iff)
  show ?thesis
    by (simp add: timeline_cards_of_list k d l map_snd_enumerate)
qed

text \<open>
  The double arithmetic of Days in Transit on the exact range. A quotient \<open>r\<close> computed
  in doubles for integers \<open>a\<close> and \<open>b\<close> is the real quotient rounded, with a relative
  error of at most \<open>2^-53\<close>, and is the real quotient itself when that is whole. For
  \<open>a\<close> below \<open>2^53\<close> in magnitude its floor is then the integer floor division.
\<close>

lemma floor_of_rounded_quotient:
  fixes a b :: int and r :: real
  assumes "0 < b"
    and "\<bar>r - real_of_int a / real_of_int b\<bar> < 1 / real_of_int b"
    and "b dvd a \<Longrightarrow> r = real_of_int a / real_of_int b"
  shows "\<lfloor>r\<rfloor> = a div b"
proof (cases "b dvd a")
  case True
  then obtain c where c: "a = b * c" by (auto simp: dvd_def)
  with assms(1) have "real_of_int a / real_of_int b = real_of_int c" by simp
  with assms(3) [OF True] have "r = real_of_int c" by simp
  moreover have "a div b = c" using c assms(1) by simp
  ultimately show ?thesis by simp
next
  case False
  define q where "q = a div b"
  define m where "m = a mod b"
  have a: "a = q * b + m" by (simp add: q_def m_def)
  have "a mod b \<noteq> 0" using False by (simp add: mod_eq_0_iff_dvd)
  moreover have "0 \<le> a mod b" "a mod b < b" using assms(1) by simp_all
  ultimately have m: "1 \<le> m" "m \<le> b - 1" unfolding m_def by linarith+
  have bp: "0 < real_of_int b" using assms(1) by simp
  have quo: "real_of_int a / real_of_int b = real_of_int q + real_of_int m / real_of_int b"
    using bp by (simp add: a field_simps)
  have lo: "1 / real_of_int b \<le> real_of_int m / real_of_int b"
    using m(1) bp by (simp add: divide_le_cancel)
  have hi: "real_of_int m / real_of_int b \<le> 1 - 1 / real_of_int b"
  proof -
    have "real_of_int m \<le> real_of_int b - 1" using m(2) by linarith
    then have "real_of_int m / real_of_int b \<le> (real_of_int b - 1) / real_of_int b"
      using bp by (simp add: divide_le_cancel)
    also have "\<dots> = 1 - 1 / real_of_int b" using bp by (simp add: field_simps)
    finally show ?thesis .
  qed
  have "real_of_int q < r" "r < real_of_int q + 1"
    using assms(2) quo lo hi by (auto simp: abs_less_iff)
  then have "\<lfloor>r\<rfloor> = q" by (simp add: floor_unique)
  then show ?thesis by (simp add: q_def)
qed

lemma floor_of_double_quotient:
  fixes a b :: int and r :: real
  assumes "0 < b" and "\<bar>a\<bar> < 2 ^ 53"
    and "\<bar>r - real_of_int a / real_of_int b\<bar> \<le> \<bar>real_of_int a / real_of_int b\<bar> / 2 ^ 53"
    and "b dvd a \<Longrightarrow> r = real_of_int a / real_of_int b"
  shows "\<lfloor>r\<rfloor> = a div b"
proof -
  have bp: "0 < real_of_int b" using assms(1) by simp
  have "\<bar>real_of_int a\<bar> < 2 ^ 53"
    using assms(2) by (metis of_int_abs of_int_less_numeral_power_cancel_iff)
  then have "\<bar>real_of_int a\<bar> / 2 ^ 53 < 1" by simp
  then have "\<bar>real_of_int a\<bar> / 2 ^ 53 / real_of_int b < 1 / real_of_int b"
    using bp by (rule divide_strict_right_mono)
  moreover have "\<bar>real_of_int a / real_of_int b\<bar> / 2 ^ 53
      = \<bar>real_of_int a\<bar> / 2 ^ 53 / real_of_int b"
    using bp by (simp add: abs_divide)
  ultimately have c: "\<bar>r - real_of_int a / real_of_int b\<bar> < 1 / real_of_int b"
    using assms(3) by linarith
  show ?thesis
    using assms(1) c assms(4) by (rule floor_of_rounded_quotient)
qed

text \<open>
  C8, as stated, fails: for a product created one day after the current time the
  statistic is -1; nothing clamps it at 0. And for a creation time that is not a date it
  is NaN, not 0.
\<close>

theorem days_in_transit_negative:
  "truthy (opt_get product_created_tomorrow ''createdAt'')
   \<and> example_toTime (opt_get product_created_tomorrow ''createdAt'')
       = Some (example_now + 86400000)
   \<and> exact_range example_now (example_now + 86400000)
   \<and> daysInTransit example_toTime example_now product_created_tomorrow = Inr (Days (- 1))
   \<and> example_toTime (opt_get product_created_unparsable ''createdAt'') = None
   \<and> daysInTransit example_toTime example_now product_created_unparsable = Inr NaN_days"
  by (simp add: daysInTransit_def get_prop_def product_created_tomorrow_def
        product_created_unparsable_def example_toTime_def example_now_def exact_range_def)

text \<open>
  C8, amended. For a product that is there, the statistic is 0 when the product has no
  (truthy) creation time, NaN when the creation time does not parse, and otherwise, for
  time values in the range of dates whose difference is below \<open>2^53\<close> milliseconds, the
  whole-day difference \<open>n = floor ((now - created) / 86400000)\<close>: \<open>created\<close> plus \<open>n\<close> days
  is at most \<open>now\<close> and one more day is past it. It is 0 when the creation time is the
  current time, never negative when the creation time is not after the current time, and
  negative when it is.
\<close>

theorem days_in_transit_whole_days:
  assumes "p \<noteq> JUndefined" and "p \<noteq> JNull"
  shows "(\<not> truthy (opt_get p ''createdAt'') \<longrightarrow> daysInTransit toTime now p = Inr (Days 0))
   \<and> (truthy (opt_get p ''createdAt'') \<and> toTime (opt_get p ''createdAt'') = None
        \<longrightarrow> daysInTransit toTime now p = Inr NaN_days)
   \<and> (truthy (opt_get p ''createdAt'') \<and> toTime (opt_get p ''createdAt'') = Some created
        \<and> \<bar>now\<bar> \<le> 8640000000000000 \<and> \<bar>created\<bar> \<le> 8640000000000000
        \<and> \<bar>now - created\<bar> < 2 ^ 53
        \<longrightarrow> (\<exists>n. daysInTransit toTime now p = Inr (Days n)
               \<and> created + n * 86400000 \<le> now \<and> now < created + (n + 1) * 86400000
               \<and> (created = now \<longrightarrow> n = 0)
               \<and> (created \<le> now \<longrightarrow> 0 \<le> n)
               \<and> (now < created \<longrightarrow> n < 0)))"
proof -
  define n where "n = (now - created) div 86400000"
  have b: "n * 86400000 \<le> now - created" "now - created < (n + 1) * 86400000"
    unfolding n_def by simp_all
  have z: "created = now \<Longrightarrow> n = 0" by (simp add: n_def)
  have p: "created \<le> now \<Longrightarrow> 0 \<le> n" by (simp add: n_def)
  have m: "now < created \<Longrightarrow> n < 0" by (simp add: n_def)
  have f: "truthy (opt_get p ''createdAt'') \<Longrightarrow> toTime (opt_get p ''createdAt'') = Some created
      \<Longrightarrow> exact_range now created \<Longrightarrow> daysInTransit toTime now p = Inr (Days n)"
    using assms by (simp add: daysInTransit_def get_prop_def n_def)
  have g: "\<not> truthy (opt_get p ''createdAt'') \<Longrightarrow> daysInTransit toTime now p = Inr (Days 0)"
    using assms by (simp add: daysInTransit_def get_prop_def)
  have h: "truthy (opt_get p ''createdAt'') \<Longrightarrow> toTime (opt_get p ''createdAt'') = None
      \<Longrightarrow> daysInTransit toTime now p = Inr NaN_days"
    using assms by (simp add: daysInTransit_def get_prop_def)
  show ?thesis
    using b z p m f g h unfolding exact_range_def by auto
qed

theorem days_in_transit_whole_days_witness:
  "daysInTransit example_toTime example_now product_created_now = Inr (Days 0)
   \<and> daysInTransit example_toTime example_now (JObj [(''name'', JStr ''Vaccine X'')])
       = Inr (Days 0)
   \<and> daysInTransit example_toTime (example_now + 3 * 86400000 + 5) product_created_now
       = Inr (Days 3)"
proof -
  have t: "truthy (opt_get product_created_now ''createdAt'')"
    "example_toTime (opt_get product_created_now ''createdAt'') = Some example_now"
    by (simp_all add: product_created_now_def example_toTime_def example_now_def)
  have u: "\<not> truthy (opt_get (JObj [(''name'', JStr ''Vaccine X'')]) ''createdAt'')"
    by simp
  have n: "product_created_now \<noteq> JUndefined" "product_created_now \<noteq> JNull"
    "JObj [(''name'', JStr ''Vaccine X'')] \<noteq> JUndefined"
    "JObj [(''name'', JStr ''Vaccine X'')] \<noteq> JNull"
    by (simp_all add: product_created_now_def)
  have r: "\<bar>example_now\<bar> \<le> 8640000000000000" "\<bar>example_now - example_now\<bar> < 2 ^ 53"
     "\<bar>example_now + 3 * 86400000 + 5\<bar> \<le> 8640000000000000"
     "\<bar>example_now + 3 * 86400000 + 5 - example_now\<bar> < 2 ^ 53"
    by (simp_all add: example_now_def)
  show ?thesis
    using t u r
      days_in_transit_whole_days [OF n(1,2), where toTime = example_toTime
        and now = example_now and created = example_now]
      days_in_transit_whole_days [OF n(3,4), where toTime = example_toTime
        and now = example_now]
      days_in_transit_whole_days [OF n(1,2), where toTime = example_toTime
        and now = "example_now + 3 * 86400000 + 5" and created = example_now]
    by auto
qed

text \<open>
  C10. For every route parameter and every record store, the checkpoint query calls the
  undefined \<open>checkpointsAPI.getByProductId\<close> (the object defines \<open>getByProduct\<close>): the call
  throws, no request is sent, and the query ends with an error and no data. Whatever the
  product query returned, whenever the page then shows its detail view the timeline is
  the error message and the checkpoint count is 0, and no view of the page shows a
  checkpoint card.
\<close>

theorem checkpoint_fetch_always_rejects:
  assumes "pid \<noteq> []"
  shows "map_of checkpointsAPI ''getByProductId'' = None
   \<and> map_of checkpointsAPI ''getByProduct'' \<noteq> None
   \<and> checkpoints_queryFn capi pid
       = ([], Inl (not_a_function ''checkpointsAPI'' ''getByProductId''))
   \<and> settled None (snd (checkpoints_queryFn capi pid))
       = \<lparr>data = None, isLoading = False,
          query_error = Some (not_a_function ''checkpointsAPI'' ''getByProductId'')\<rparr>
   \<and> (case ProductDetailPage toTime now pq (settled None (snd (checkpoints_queryFn capi pid))) of
         Detail v \<Rightarrow> journey v = TError ''Failed to load checkpoints'' \<and> totalCheckpoints v = 0
       | other \<Rightarrow> True)
   \<and> page_cards (ProductDetailPage toTime now pq
         (settled None (snd (checkpoints_queryFn capi pid)))) = []"
  by (simp add: checkpoints_queryFn_rejects settled_def ProductDetailPage_def
        timeline_def checkpointsAPI_def split: sum.splits option.splits)

theorem checkpoint_fetch_always_rejects_witness:
  "settled_page store_has_product store_has_checkpoints example_toTime example_now ''rec-1''
     = Detail \<lparr>journey = TError ''Failed to load checkpoints'', totalCheckpoints = 0,
               daysInTransitStat = Days 0\<rparr>
   \<and> page_cards (settled_page store_has_product store_has_checkpoints example_toTime
        example_now ''rec-1'') = []"
proof -
  have n: "''rec-1'' \<noteq> []" by simp
  obtain v where v: "settled_page store_has_product store_has_checkpoints example_toTime
      example_now ''rec-1'' = Detail v" and d: "daysInTransitStat v = Days 0"
    by (simp add: settled_product_page)
  have v': "ProductDetailPage example_toTime example_now
        (settled JUndefined (snd (product_queryFn store_has_product ''rec-1'')))
        (settled None (snd (checkpoints_queryFn store_has_checkpoints ''rec-1''))) = Detail v"
    using v unfolding settled_page_def .
  have "case ProductDetailPage example_toTime example_now
        (settled JUndefined (snd (product_queryFn store_has_product ''rec-1'')))
        (settled None (snd (checkpoints_queryFn store_has_checkpoints ''rec-1''))) of
          Detail v \<Rightarrow> journey v = TError ''Failed to load checkpoints'' \<and> totalCheckpoints v = 0
        | other \<Rightarrow> True"
    using checkpoint_fetch_always_rejects [OF n, where capi = store_has_checkpoints
        and toTime = example_toTime and now = example_now
        and pq = "settled JUndefined (snd (product_queryFn store_has_product ''rec-1''))"]
    by blast
  then have j: "journey v = TError ''Failed to load checkpoints''" "totalCheckpoints v = 0"
    unfolding v' by simp_all
  show ?thesis
    unfolding v using j d by (cases v) simp
qed

end
